theory Spec2Isabelle
  imports Complex_Main "HOL-Library.Multiset"
begin

section \<open>Data model (src/db/users.js, src/db/posts.js)\<close>

text \<open>
  The backend keeps four Mongoose collections: users, posts, comments and likes.
  A collection is modelled as the list of its documents in natural (insertion) order,
  a document as a record, an ObjectId as a natural number and a Date as an integer
  (milliseconds). Fields that none of the modelled operations reads or writes
  (e-mail, credentials, country, biography, ...) are left out of \<open>user\<close>.
\<close>

type_synonym oid = nat
type_synonym date = int

record user =
  user_oid :: oid
  username :: string
  first_name :: string
  last_name :: string
  profile_picture :: "string option"
  profile_is_archived :: bool

text \<open>
  \<open>postSchema\<close> declares \<open>post_is_archived\<close> with \<open>select: false\<close>: a query
  on \<open>PostsModel\<close> returns the document without that field. The returned shape is
  \<open>post_doc\<close>; the stored document \<open>post\<close> extends it with the flag, and
  \<open>post_doc.truncate\<close> is the projection a query applies. The type of
  \<open>post_owner_id\<close> is a parameter: an ObjectId in storage, the referenced user
  document (or null) after \<open>populate\<close>.
\<close>

record 'o post_doc =
  post_oid :: oid
  post_owner_id :: 'o
  post_content :: string
  post_timestamp :: date
  post_like_count :: int
  post_comment_count :: int

record 'o post = "'o post_doc" +
  post_is_archived :: bool

record comment =
  comment_oid :: oid
  comment_post_id :: oid
  comment_owner_id :: oid
  comment_content :: string
  comment_timestamp :: date

record like =
  like_oid :: oid
  like_post_id :: oid
  like_owner_id :: oid
  like_timestamp :: date

text \<open>
  Every call of a Mongoose model method is one access to storage. The state records
  them in order in \<open>oplog\<close>, so that statements about which storage calls an
  operation makes, and in which order, can be written down. \<open>next_oid\<close> is the
  source of fresh ObjectIds for inserted documents.
\<close>

datatype collection = Users | Posts | Comments | Likes

datatype access = Find collection | Insert collection | Update collection | Delete collection

record db =
  users :: "user list"
  posts :: "oid post list"
  comments :: "comment list"
  likes :: "like list"
  next_oid :: oid
  oplog :: "access list"

datatype error =
    ValidationError | TypeError | MongoError | DocumentNotFoundError | CastError
  | UnhandledRejection

text \<open>
  A route parameter \<open>req.params.id\<close> is a string. When it is put into a filter,
  Mongoose casts it to an ObjectId while it builds the query, and raises
  \<open>CastError\<close>, before anything is sent to the server, when the string is not one
  (\<open>'abc'\<close>). \<open>request_id\<close> is the parameter together with the outcome of that
  cast. \<open>delPost\<close> and its controller are modelled on the parameter as it arrives;
  the other operations are modelled on the ObjectId their parameter casts to.
\<close>

datatype request_id = ObjectId oid | Uncastable string

definition touch :: "access \<Rightarrow> db \<Rightarrow> db" where
  "touch a d = d\<lparr>oplog := oplog d @ [a]\<rparr>"

text \<open>
  \<open>updateOne\<close>, \<open>findByIdAndUpdate\<close>, \<open>findOneAndDelete\<close>, \<open>deleteOne\<close> and
  \<open>doc.save()\<close> act on the first document that matches, and on no other.
\<close>

fun update_first :: "('a \<Rightarrow> bool) \<Rightarrow> ('a \<Rightarrow> 'a) \<Rightarrow> 'a list \<Rightarrow> 'a list" where
  "update_first P f [] = []"
| "update_first P f (x # xs) = (if P x then f x # xs else x # update_first P f xs)"

fun delete_first :: "('a \<Rightarrow> bool) \<Rightarrow> 'a list \<Rightarrow> 'a list" where
  "delete_first P [] = []"
| "delete_first P (x # xs) = (if P x then xs else x # delete_first P xs)"

section \<open>Posts (src/db/posts.js)\<close>

definition itemsToFetch :: int where
  "itemsToFetch = 5"

text \<open>
  \<open>.skip(n).limit(k)\<close> on a query: the server rejects a negative skip, otherwise
  \<open>n\<close> documents are passed over and at most \<open>k\<close> returned.
\<close>

definition skip_limit :: "int \<Rightarrow> int \<Rightarrow> 'a list \<Rightarrow> error + 'a list" where
  "skip_limit n k xs = (if n < 0 then Inl MongoError else Inr (take (nat k) (drop (nat n) xs)))"

definition getPostById :: "db \<Rightarrow> oid \<Rightarrow> oid post_doc option \<times> db" where
  "getPostById d i =
     (map_option post_doc.truncate (find (\<lambda>p. post_oid p = i) (posts d)), touch (Find Posts) d)"

definition getPostsByUserId :: "db \<Rightarrow> oid \<Rightarrow> int \<Rightarrow> (error + oid post_doc list) \<times> db" where
  "getPostsByUserId d uid page =
     (skip_limit ((page - 1) * itemsToFetch) itemsToFetch
        (map post_doc.truncate (filter (\<lambda>p. post_owner_id p = uid) (posts d))),
      touch (Find Posts) d)"

text \<open>
  \<open>archivePost\<close> and \<open>unarchivePost\<close> receive the document loaded by the
  \<open>postExists\<close> middleware, assign the flag and call \<open>post.save()\<close>, which
  writes the modified path only (\<open>$set\<close> on the stored document with the same
  \<open>_id\<close>) and raises \<open>DocumentNotFoundError\<close> when no stored document has it.
\<close>

definition save_archived :: "db \<Rightarrow> oid post_doc \<Rightarrow> bool \<Rightarrow> (error + oid post) \<times> db" where
  "save_archived d p flag =
     (let d1 = touch (Update Posts) d
      in case find (\<lambda>q. post_oid q = post_oid p) (posts d) of
           None \<Rightarrow> (Inl DocumentNotFoundError, d1)
         | Some _ \<Rightarrow>
             (Inr (post_doc.extend p \<lparr>post_is_archived = flag\<rparr>),
              d1\<lparr>posts := update_first (\<lambda>q. post_oid q = post_oid p)
                              (\<lambda>q. q\<lparr>post_is_archived := flag\<rparr>) (posts d1)\<rparr>))"

definition archivePost :: "db \<Rightarrow> oid post_doc \<Rightarrow> (error + oid post) \<times> db" where
  "archivePost d p = save_archived d p True"

definition unarchivePost :: "db \<Rightarrow> oid post_doc \<Rightarrow> (error + oid post) \<times> db" where
  "unarchivePost d p = save_archived d p False"

text \<open>
  \<open>delPost(id)\<close>: two \<open>deleteMany\<close> calls, then \<open>findByIdAndDelete\<close>. The
  controller passes \<open>req.params.id\<close> as it is; the first \<open>deleteMany\<close> raises
  when the id cannot be cast.
\<close>

definition delPost :: "db \<Rightarrow> request_id \<Rightarrow> (error + oid post_doc option) \<times> db" where
  "delPost d rid =
     (case rid of
        Uncastable _ \<Rightarrow> (Inl CastError, d)
      | ObjectId i \<Rightarrow>
          (let d1 = touch (Delete Comments)
                      (d\<lparr>comments := filter (\<lambda>c. comment_post_id c \<noteq> i) (comments d)\<rparr>);
               d2 = touch (Delete Likes)
                      (d1\<lparr>likes := filter (\<lambda>l. like_post_id l \<noteq> i) (likes d1)\<rparr>)
           in (Inr (map_option post_doc.truncate (find (\<lambda>p. post_oid p = i) (posts d2))),
               touch (Delete Posts)
                 (d2\<lparr>posts := delete_first (\<lambda>p. post_oid p = i) (posts d2)\<rparr>))))"

text \<open>
  \<open>createNewComment(values)\<close> with \<open>values = {post_id, comment_owner_id,
  comment_content}\<close>, and the current time for the \<open>Date.now\<close> default. The schema
  requires \<open>comment_content\<close>, so \<open>save()\<close> rejects the empty string before
  anything is stored; the \<open>catch\<close> block logs and rethrows.
  \<open>findByIdAndUpdate\<close> with \<open>$inc\<close> does nothing when no post has the id.
\<close>

definition createNewComment :: "db \<Rightarrow> oid \<Rightarrow> oid \<Rightarrow> string \<Rightarrow> date \<Rightarrow> (error + comment) \<times> db" where
  "createNewComment d post_id owner_id content now =
     (if content = [] then (Inl ValidationError, d)
      else
        let newComment = \<lparr>comment_oid = next_oid d, comment_post_id = post_id,
                           comment_owner_id = owner_id, comment_content = content,
                           comment_timestamp = now\<rparr>;
            d1 = touch (Insert Comments)
                   (d\<lparr>comments := comments d @ [newComment], next_oid := Suc (next_oid d)\<rparr>);
            d2 = touch (Update Posts)
                   (d1\<lparr>posts := update_first (\<lambda>p. post_oid p = post_id)
                                   (\<lambda>p. p\<lparr>post_comment_count := post_comment_count p + 1\<rparr>)
                                   (posts d1)\<rparr>)
        in (Inr newComment, d2))"

definition delComment :: "db \<Rightarrow> oid \<Rightarrow> comment option \<times> db" where
  "delComment d i =
     (case find (\<lambda>c. comment_oid c = i) (comments d) of
        None \<Rightarrow> (None, touch (Delete Comments) d)
      | Some deletedComment \<Rightarrow>
          let d1 = touch (Delete Comments)
                     (d\<lparr>comments := delete_first (\<lambda>c. comment_oid c = i) (comments d)\<rparr>);
              d2 = touch (Update Posts)
                     (d1\<lparr>posts := update_first (\<lambda>p. post_oid p = comment_post_id deletedComment)
                                     (\<lambda>p. p\<lparr>post_comment_count := post_comment_count p - 1\<rparr>)
                                     (posts d1)\<rparr>)
          in (Some deletedComment, d2))"

definition getCommentById :: "db \<Rightarrow> oid \<Rightarrow> comment option \<times> db" where
  "getCommentById d i = (find (\<lambda>c. comment_oid c = i) (comments d), touch (Find Comments) d)"

definition getCommentsForPost :: "db \<Rightarrow> oid \<Rightarrow> int \<Rightarrow> (error + comment list) \<times> db" where
  "getCommentsForPost d postId page =
     (skip_limit ((page - 1) * itemsToFetch) itemsToFetch
        (filter (\<lambda>c. comment_post_id c = postId) (comments d)),
      touch (Find Comments) d)"

text \<open>
  \<open>createNewLike(values)\<close> with \<open>values = {post_id, like_owner_id}\<close>. The counter
  is written through the loaded document (\<open>post.post_like_count += 1; post.save()\<close>);
  when no post has the id, \<open>post\<close> is null and the property access raises.
\<close>

definition createNewLike :: "db \<Rightarrow> oid \<Rightarrow> oid \<Rightarrow> date \<Rightarrow> (error + nat) \<times> db" where
  "createNewLike d post_id owner_id now =
     (let d1 = touch (Find Likes) d
      in case find (\<lambda>l. like_post_id l = post_id \<and> like_owner_id l = owner_id) (likes d) of
           Some existingLike \<Rightarrow> (Inr 200, d1)
         | None \<Rightarrow>
             (let d2 = touch (Find Posts) d1
              in (case find (\<lambda>p. post_oid p = post_id) (posts d) of
                    None \<Rightarrow> (Inl TypeError, d2)
                  | Some p \<Rightarrow>
                      (let d3 = touch (Update Posts)
                                  (d2\<lparr>posts := update_first (\<lambda>q. post_oid q = post_oid p)
                                                  (\<lambda>q. q\<lparr>post_like_count := post_like_count p + 1\<rparr>)
                                                  (posts d2)\<rparr>);
                           d4 = touch (Insert Likes)
                                  (d3\<lparr>likes := likes d3 @
                                                 [\<lparr>like_oid = next_oid d3, like_post_id = post_id,
                                                   like_owner_id = owner_id, like_timestamp = now\<rparr>],
                                       next_oid := Suc (next_oid d3)\<rparr>)
                       in (Inr 201, d4)))))"

text \<open>
  \<open>deleteAllPosts(id)\<close>. The callbacks given to the two \<open>forEach\<close> calls are
  \<open>async\<close> and nobody awaits them: a callback runs up to its \<open>find\<close> when
  \<open>forEach\<close> calls it, and goes on when the answer to that \<open>find\<close> arrives, while
  the function itself continues. The model takes the server to answer requests in the
  order in which they were issued. Then
  \<^item> every comment callback has read its post before any of them saves, so each writes one
    less than the count found at the start, and all of them have saved before the likes
    are answered;
  \<^item> the like callbacks read their posts before \<open>deleteMany\<close> removes the user's posts,
    and save after it: the save of a post that has been removed finds no document;
  \<^item> an exception inside a callback (\<open>targetPost[0]\<close> undefined, or the save that finds
    no document) rejects a promise nobody holds. Node ends the process on an unhandled
    rejection, and what had not been issued by then never happens. A missing
    \<open>targetPost[0]\<close> is met when the answer to the \<open>find\<close> arrives; a failed save is
    met after the comments have been deleted and before the likes are.
  The \<open>catch\<close> block rethrows what an awaited call raises.
\<close>

definition find_targets :: "oid list \<Rightarrow> db \<Rightarrow> oid post option list \<times> db" where
  "find_targets ids d =
     (map (\<lambda>i. find (\<lambda>p. post_oid p = i) (posts d)) ids,
      d\<lparr>oplog := oplog d @ map (\<lambda>_. Find Posts) ids\<rparr>)"

fun save_comment_counts :: "oid post option list \<Rightarrow> db \<Rightarrow> (error + unit) \<times> db" where
  "save_comment_counts [] d = (Inr (), d)"
| "save_comment_counts (None # ts) d = (Inl UnhandledRejection, d)"
| "save_comment_counts (Some targetPost # ts) d =
     save_comment_counts ts
       (touch (Update Posts)
          (d\<lparr>posts := update_first (\<lambda>q. post_oid q = post_oid targetPost)
                          (\<lambda>q. q\<lparr>post_comment_count := post_comment_count targetPost - 1\<rparr>)
                          (posts d)\<rparr>))"

text \<open>
  The like callbacks; the result tells whether some save found no document.
\<close>

fun save_like_counts :: "oid post option list \<Rightarrow> db \<Rightarrow> (error + bool) \<times> db" where
  "save_like_counts [] d = (Inr False, d)"
| "save_like_counts (None # ts) d = (Inl UnhandledRejection, d)"
| "save_like_counts (Some targetPost # ts) d =
     (let gone = (find (\<lambda>q. post_oid q = post_oid targetPost) (posts d) = None);
          d1 = touch (Update Posts)
                 (d\<lparr>posts := update_first (\<lambda>q. post_oid q = post_oid targetPost)
                                 (\<lambda>q. q\<lparr>post_like_count := post_like_count targetPost - 1\<rparr>)
                                 (posts d)\<rparr>)
      in case save_like_counts ts d1 of
           (Inl e, d2) \<Rightarrow> (Inl e, d2)
         | (Inr failed, d2) \<Rightarrow> (Inr (gone \<or> failed), d2))"

definition deleteAllPosts :: "db \<Rightarrow> oid \<Rightarrow> (error + unit) \<times> db" where
  "deleteAllPosts d i =
     (let d1 = touch (Find Comments) d;
          commentList = filter (\<lambda>c. comment_owner_id c = i) (comments d1);
          (commentTargets, d2) = find_targets (map comment_post_id commentList) d1;
          d3 = touch (Find Likes) d2;
          likeList = filter (\<lambda>l. like_owner_id l = i) (likes d3)
      in case save_comment_counts commentTargets d3 of
           (Inl e, d4) \<Rightarrow> (Inl e, d4)
         | (Inr _, d4) \<Rightarrow>
             (let (likeTargets, d5) = find_targets (map like_post_id likeList) d4;
                  d6 = touch (Delete Posts)
                         (d5\<lparr>posts := filter (\<lambda>p. post_owner_id p \<noteq> i) (posts d5)\<rparr>)
              in case save_like_counts likeTargets d6 of
                   (Inl e, d7) \<Rightarrow> (Inl e, d7)
                 | (Inr failed, d7) \<Rightarrow>
                     (let d8 = touch (Delete Comments)
                                 (d7\<lparr>comments :=
                                       filter (\<lambda>c. comment_owner_id c \<noteq> i) (comments d7)\<rparr>)
                      in if failed then (Inl UnhandledRejection, d8)
                         else (Inr (),
                               touch (Delete Likes)
                                 (d8\<lparr>likes :=
                                       filter (\<lambda>l. like_owner_id l \<noteq> i) (likes d8)\<rparr>)))))"

definition getPostLikes :: "db \<Rightarrow> oid \<Rightarrow> int \<Rightarrow> (error + like list) \<times> db" where
  "getPostLikes d postId page =
     (skip_limit ((page - 1) * itemsToFetch) itemsToFetch
        (filter (\<lambda>l. like_post_id l = postId) (likes d)),
      touch (Find Likes) d)"

definition delLike :: "db \<Rightarrow> oid \<Rightarrow> oid \<Rightarrow> (error + nat) \<times> db" where
  "delLike d post_id owner_id =
     (let d1 = touch (Find Likes) d
      in case find (\<lambda>l. like_post_id l = post_id \<and> like_owner_id l = owner_id) (likes d) of
           None \<Rightarrow> (Inr 404, d1)
         | Some existingLike \<Rightarrow>
             (let d2 = touch (Find Posts) d1
              in (case find (\<lambda>p. post_oid p = post_id) (posts d) of
                    None \<Rightarrow> (Inl TypeError, d2)
                  | Some p \<Rightarrow>
                      (let d3 = touch (Update Posts)
                                  (d2\<lparr>posts := update_first (\<lambda>q. post_oid q = post_oid p)
                                                  (\<lambda>q. q\<lparr>post_like_count := post_like_count p - 1\<rparr>)
                                                  (posts d2)\<rparr>);
                           d4 = touch (Delete Likes)
                                  (d3\<lparr>likes := delete_first (\<lambda>l. like_oid l = like_oid existingLike)
                                                  (likes d3)\<rparr>)
                       in (Inr 200, d4)))))"

text \<open>
  \<open>fetchPosts(page)\<close>: the query builder collects \<open>skip\<close>, \<open>limit\<close> and
  \<open>sort\<close> into one \<open>find\<close> command, and the server sorts before it skips and
  limits whatever the order of the builder calls. The sort is by \<open>post_timestamp\<close>
  descending; among equal timestamps the model keeps storage order. \<open>populate\<close>
  then replaces each \<open>post_owner_id\<close> by the selected fields of the user with that id
  (\<open>_id\<close>, \<open>username\<close>, \<open>user_info.profile_picture\<close>), or by null when there is none;
  it asks for no user when the page is empty.
\<close>

record owner_doc =
  owner_oid :: oid
  owner_username :: string
  owner_profile_picture :: "string option"

definition select_owner :: "user \<Rightarrow> owner_doc" where
  "select_owner u =
     \<lparr>owner_oid = user_oid u, owner_username = username u,
      owner_profile_picture = profile_picture u\<rparr>"

definition populate :: "user list \<Rightarrow> oid post_doc \<Rightarrow> owner_doc option post_doc" where
  "populate us p =
     \<lparr>post_oid = post_oid p,
      post_owner_id = map_option select_owner (find (\<lambda>u. user_oid u = post_owner_id p) us),
      post_content = post_content p, post_timestamp = post_timestamp p,
      post_like_count = post_like_count p, post_comment_count = post_comment_count p\<rparr>"

definition sort_timestamp_desc :: "oid post list \<Rightarrow> oid post list" where
  "sort_timestamp_desc ps = sort_key (\<lambda>p. - post_timestamp p) ps"

definition fetchPosts :: "db \<Rightarrow> int \<Rightarrow> (error + owner_doc option post_doc list) \<times> db" where
  "fetchPosts d page =
     (let d1 = touch (Find Posts) d
      in case skip_limit ((page - 1) * itemsToFetch) itemsToFetch
                (map post_doc.truncate (sort_timestamp_desc (posts d))) of
           Inl e \<Rightarrow> (Inl e, d1)
         | Inr ps \<Rightarrow>
             (Inr (map (populate (users d)) ps),
              if ps = [] then d1 else touch (Find Users) d1))"

section \<open>Users (src/db/users.js)\<close>

text \<open>
  \<open>deleteProfile(id)\<close> returns \<open>{status, message}\<close>. The lookup and the test of the
  flag are outside the \<open>try\<close>: a missing user raises to the caller. An error that
  \<open>deleteAllPosts\<close> raises is caught and turned into status 500; the end of the
  process is not something a \<open>catch\<close> sees.
\<close>

record profile_result =
  result_status :: nat
  result_message :: "string option"

definition deleteProfile :: "db \<Rightarrow> oid \<Rightarrow> (error + profile_result) \<times> db" where
  "deleteProfile d i =
     (let d1 = touch (Find Users) d
      in case find (\<lambda>u. user_oid u = i) (users d) of
           None \<Rightarrow> (Inl TypeError, d1)
         | Some u \<Rightarrow>
             if \<not> profile_is_archived u then
               (Inr \<lparr>result_status = 400,
                     result_message = Some ''Cannot delete a profile that is not archived''\<rparr>, d1)
             else
               (case deleteAllPosts d1 i of
                  (Inl e, d2) \<Rightarrow>
                    (if e = UnhandledRejection then (Inl UnhandledRejection, d2)
                     else (Inr \<lparr>result_status = 500,
                                result_message = Some ''Error deleting profile''\<rparr>, d2))
                | (Inr _, d2) \<Rightarrow>
                    (Inr \<lparr>result_status = 200, result_message = None\<rparr>,
                     touch (Delete Users)
                       (d2\<lparr>users := delete_first (\<lambda>x. user_oid x = i) (users d2)\<rparr>))))"

text \<open>
  \<open>getReactionAndUserData(reactions)\<close>: the owners of the comments (type
  \<open>'comments'\<close>) or likes (any other type) are looked up one by one; a missing user
  makes \<open>info\<close> null and the property access raises. For comments the content and
  timestamp of the comment at the same index are added.
\<close>

datatype reactions = CommentReactions "comment list" | LikeReactions "like list"

record reaction =
  reaction_username :: string
  reaction_profile_pic :: "string option"
  reaction_first_name :: string
  reaction_last_name :: string
  reaction_content :: "string option"
  reaction_timestamp :: "date option"

fun lookup_owners :: "db \<Rightarrow> oid list \<Rightarrow> (error + reaction list) \<times> db" where
  "lookup_owners d [] = (Inr [], d)"
| "lookup_owners d (u # us) =
     (let d1 = touch (Find Users) d
      in case find (\<lambda>x. user_oid x = u) (users d) of
           None \<Rightarrow> (Inl TypeError, d1)
         | Some info \<Rightarrow>
             (case lookup_owners d1 us of
                (Inl e, d2) \<Rightarrow> (Inl e, d2)
              | (Inr rs, d2) \<Rightarrow>
                  (Inr (\<lparr>reaction_username = username info,
                         reaction_profile_pic = profile_picture info,
                         reaction_first_name = first_name info,
                         reaction_last_name = last_name info,
                         reaction_content = None, reaction_timestamp = None\<rparr> # rs), d2)))"

definition getReactionAndUserData :: "db \<Rightarrow> reactions \<Rightarrow> (error + reaction list) \<times> db" where
  "getReactionAndUserData d r =
     (case r of
        LikeReactions ls \<Rightarrow> lookup_owners d (map like_owner_id ls)
      | CommentReactions cs \<Rightarrow>
          (case lookup_owners d (map comment_owner_id cs) of
             (Inl e, d1) \<Rightarrow> (Inl e, d1)
           | (Inr rs, d1) \<Rightarrow>
               (Inr (map2 (\<lambda>x c. x\<lparr>reaction_content := Some (comment_content c),
                                     reaction_timestamp := Some (comment_timestamp c)\<rparr>) rs cs),
                d1)))"

section \<open>Controllers (src/controllers/posts.js, src/controllers/profile.js)\<close>

text \<open>
  A controller is given the fields of the request it reads and produces the response
  sent. \<open>Number(req.params.page)\<close> is a JavaScript number: not-a-number, an
  infinity, or a finite value, taken here as a rational.
\<close>

datatype jsnum = NaN | PosInf | NegInf | Fin rat

definition Number_isInteger :: "jsnum \<Rightarrow> bool" where
  "Number_isInteger x = (case x of Fin r \<Rightarrow> r = of_int \<lfloor>r\<rfloor> | _ \<Rightarrow> False)"

definition le_zero :: "jsnum \<Rightarrow> bool" where
  "le_zero x = (case x of Fin r \<Rightarrow> r \<le> 0 | NegInf \<Rightarrow> True | _ \<Rightarrow> False)"

text \<open>The value of a number that has passed \<open>Number.isInteger\<close>.\<close>

definition integer_value :: "jsnum \<Rightarrow> int" where
  "integer_value x = (case x of Fin r \<Rightarrow> \<lfloor>r\<rfloor> | _ \<Rightarrow> 0)"

text \<open>\<open>Buffer.prototype.toString('base64')\<close>, on a buffer given as its bytes.\<close>

definition base64_alphabet :: string where
  "base64_alphabet = ''ABCDEFGHIJKLMNOPQRSTUVWXYZabcdefghijklmnopqrstuvwxyz0123456789+/''"

definition base64_digit :: "nat \<Rightarrow> char" where
  "base64_digit n = base64_alphabet ! (n mod 64)"

fun toString_base64 :: "string \<Rightarrow> string" where
  "toString_base64 [] = []"
| "toString_base64 [a] =
     (let x = (of_char a :: nat)
      in [base64_digit (x div 4), base64_digit (x mod 4 * 16), CHR ''='', CHR ''=''])"
| "toString_base64 [a, b] =
     (let x = (of_char a :: nat); y = (of_char b :: nat)
      in [base64_digit (x div 4), base64_digit (x mod 4 * 16 + y div 16),
          base64_digit (y mod 16 * 4), CHR ''=''])"
| "toString_base64 (a # b # c # bs) =
     (let x = (of_char a :: nat); y = (of_char b :: nat); z = (of_char c :: nat)
      in [base64_digit (x div 4), base64_digit (x mod 4 * 16 + y div 16),
          base64_digit (y mod 16 * 4 + z div 64), base64_digit (z mod 64)]
         @ toString_base64 bs)"

record feed_item =
  item_username :: string
  item_profilePic :: "string option"
  item_timestamp :: date
  item_likeCount :: int
  item_commentCount :: int
  item_content :: string
  item_id :: oid

datatype body =
    JsonError string
  | JsonMessage string
  | JsonPosts "oid post_doc list"
  | JsonReactions "reaction list"
  | JsonFeed "feed_item list"
  | Text string
  | NoBody

record response =
  status :: nat
  body :: body

definition invalid_page :: response where
  "invalid_page =
     \<lparr>status = 400,
      body = JsonError ''Page number must be integer greater than or equal to 1.''\<rparr>"

definition internal_server_error :: response where
  "internal_server_error = \<lparr>status = 500, body = JsonError ''Internal server error''\<rparr>"

definition deletePost :: "db \<Rightarrow> request_id \<Rightarrow> response \<times> db" where
  "deletePost d post_id =
     (case delPost d post_id of
        (Inl e, d1) \<Rightarrow> (internal_server_error, d1)
      | (Inr _, d1) \<Rightarrow>
          (\<lparr>status = 200, body = JsonMessage ''Post deleted successfully''\<rparr>, d1))"

definition getPostByUsername :: "db \<Rightarrow> user \<Rightarrow> jsnum \<Rightarrow> response \<times> db" where
  "getPostByUsername d requested_user page =
     (if \<not> Number_isInteger page \<or> le_zero page then (invalid_page, d)
      else
        (case getPostsByUserId d (user_oid requested_user) (integer_value page) of
           (Inl e, d1) \<Rightarrow> (internal_server_error, d1)
         | (Inr ps, d1) \<Rightarrow> (\<lparr>status = 200, body = JsonPosts ps\<rparr>, d1)))"

definition getLikesForPost :: "db \<Rightarrow> oid \<Rightarrow> jsnum \<Rightarrow> response \<times> db" where
  "getLikesForPost d post_id page =
     (if \<not> Number_isInteger page \<or> le_zero page then (invalid_page, d)
      else
        (case getPostLikes d post_id (integer_value page) of
           (Inl e, d1) \<Rightarrow> (internal_server_error, d1)
         | (Inr ls, d1) \<Rightarrow>
             (case getReactionAndUserData d1 (LikeReactions ls) of
                (Inl e, d2) \<Rightarrow> (internal_server_error, d2)
              | (Inr userIds, d2) \<Rightarrow> (\<lparr>status = 200, body = JsonReactions userIds\<rparr>, d2))))"

definition getCommsForPost :: "db \<Rightarrow> oid \<Rightarrow> jsnum \<Rightarrow> response \<times> db" where
  "getCommsForPost d post_id page =
     (if \<not> Number_isInteger page \<or> le_zero page then (invalid_page, d)
      else
        (case getCommentsForPost d post_id (integer_value page) of
           (Inl e, d1) \<Rightarrow> (internal_server_error, d1)
         | (Inr cs, d1) \<Rightarrow>
             (case getReactionAndUserData d1 (CommentReactions cs) of
                (Inl e, d2) \<Rightarrow> (internal_server_error, d2)
              | (Inr userIds, d2) \<Rightarrow> (\<lparr>status = 200, body = JsonReactions userIds\<rparr>, d2))))"

definition createLike :: "db \<Rightarrow> oid \<Rightarrow> user \<Rightarrow> date \<Rightarrow> response \<times> db" where
  "createLike d post_id u now =
     (case createNewLike d post_id (user_oid u) now of
        (Inl e, d1) \<Rightarrow> (\<lparr>status = 400, body = JsonError ''Invalid request...''\<rparr>, d1)
      | (Inr statusCode, d1) \<Rightarrow>
          (if statusCode = 201
           then (\<lparr>status = 201, body = JsonMessage ''New like created successfully''\<rparr>, d1)
           else (\<lparr>status = 200, body = JsonMessage ''You have already liked this post.''\<rparr>, d1)))"

definition deleteLike :: "db \<Rightarrow> oid \<Rightarrow> user \<Rightarrow> response \<times> db" where
  "deleteLike d post_id u =
     (case delLike d post_id (user_oid u) of
        (Inl e, d1) \<Rightarrow> (\<lparr>status = 400, body = JsonError ''Invalid request...''\<rparr>, d1)
      | (Inr statusCode, d1) \<Rightarrow>
          (if statusCode = 200
           then (\<lparr>status = 200, body = JsonMessage ''Like deleted successfully''\<rparr>, d1)
           else (\<lparr>status = 404, body = JsonMessage ''Like not found.''\<rparr>, d1)))"

text \<open>
  \<open>getFeed\<close> formats every fetched post; \<open>post.post_owner_id.username\<close> raises
  when \<open>populate\<close> left null, and the \<open>catch\<close> block answers 500.
\<close>

definition format_post :: "owner_doc option post_doc \<Rightarrow> error + feed_item" where
  "format_post p =
     (case post_owner_id p of
        None \<Rightarrow> Inl TypeError
      | Some owner \<Rightarrow>
          Inr \<lparr>item_username = owner_username owner,
               item_profilePic = map_option toString_base64 (owner_profile_picture owner),
               item_timestamp = post_timestamp p,
               item_likeCount = post_like_count p,
               item_commentCount = post_comment_count p,
               item_content = post_content p,
               item_id = post_oid p\<rparr>)"

fun format_posts :: "owner_doc option post_doc list \<Rightarrow> error + feed_item list" where
  "format_posts [] = Inr []"
| "format_posts (p # ps) =
     (case format_post p of
        Inl e \<Rightarrow> Inl e
      | Inr x \<Rightarrow> (case format_posts ps of Inl e \<Rightarrow> Inl e | Inr xs \<Rightarrow> Inr (x # xs)))"

definition getFeed :: "db \<Rightarrow> jsnum \<Rightarrow> response \<times> db" where
  "getFeed d page =
     (if \<not> Number_isInteger page \<or> le_zero page then (invalid_page, d)
      else
        (case fetchPosts d (integer_value page) of
           (Inl e, d1) \<Rightarrow> (\<lparr>status = 500, body = Text ''Server Error''\<rparr>, d1)
         | (Inr ps, d1) \<Rightarrow>
             (case format_posts ps of
                Inl e \<Rightarrow> (\<lparr>status = 500, body = Text ''Server Error''\<rparr>, d1)
              | Inr formattedPosts \<Rightarrow> (\<lparr>status = 200, body = JsonFeed formattedPosts\<rparr>, d1))))"

text \<open>
  The profile controller \<open>deleteProfile\<close> (it imports the function of
  \<open>db/users.js\<close> as \<open>_deleteProfile\<close>): status 400 is answered with the message,
  any other status with \<open>sendStatus\<close>, an exception with 500. When the process has
  ended no response is sent.
\<close>

definition deleteProfile_controller :: "db \<Rightarrow> user \<Rightarrow> (error + response) \<times> db" where
  "deleteProfile_controller d u =
     (case deleteProfile d (user_oid u) of
        (Inl e, d1) \<Rightarrow>
          (if e = UnhandledRejection then (Inl UnhandledRejection, d1)
           else (Inr \<lparr>status = 500, body = NoBody\<rparr>, d1))
      | (Inr r, d1) \<Rightarrow>
          (if result_status r = 400
           then (Inr \<lparr>status = 400,
                      body = (case result_message r of
                                Some m \<Rightarrow> JsonMessage m | None \<Rightarrow> NoBody)\<rparr>, d1)
           else (Inr \<lparr>status = result_status r, body = NoBody\<rparr>, d1)))"

section \<open>Derived notions used in the statements\<close>

definition comments_of_post :: "db \<Rightarrow> oid \<Rightarrow> comment list" where
  "comments_of_post d i = filter (\<lambda>c. comment_post_id c = i) (comments d)"

definition likes_of_post :: "db \<Rightarrow> oid \<Rightarrow> like list" where
  "likes_of_post d i = filter (\<lambda>l. like_post_id l = i) (likes d)"

definition stored_post :: "db \<Rightarrow> oid \<Rightarrow> oid post option" where
  "stored_post d i = find (\<lambda>p. post_oid p = i) (posts d)"

text \<open>The posts a request parameter matches: none when it is no ObjectId.\<close>

definition posts_with_id :: "db \<Rightarrow> request_id \<Rightarrow> oid post list" where
  "posts_with_id d rid = filter (\<lambda>p. ObjectId (post_oid p) = rid) (posts d)"

definition comment_count_of :: "db \<Rightarrow> oid \<Rightarrow> int option" where
  "comment_count_of d i = map_option post_comment_count (stored_post d i)"

definition like_count_of :: "db \<Rightarrow> oid \<Rightarrow> int option" where
  "like_count_of d i = map_option post_like_count (stored_post d i)"

text \<open>
  A state is consistent for comments when post ids are unique (as \<open>_id\<close> is in a
  collection) and every post's counter is the number of comments that reference it.
\<close>

definition comment_counts_consistent :: "db \<Rightarrow> bool" where
  "comment_counts_consistent d =
     (distinct (map post_oid (posts d)) \<and>
      list_all (\<lambda>p. post_comment_count p = int (length (comments_of_post d (post_oid p))))
        (posts d))"

text \<open>A request that creates or deletes a comment, and a sequence of them run in order.\<close>

datatype comment_op = CreateComment oid oid string date | DeleteComment oid

fun apply_comment_op :: "db \<Rightarrow> comment_op \<Rightarrow> db" where
  "apply_comment_op d (CreateComment post_id owner_id content now) =
     snd (createNewComment d post_id owner_id content now)"
| "apply_comment_op d (DeleteComment i) = snd (delComment d i)"

definition run_comment_ops :: "db \<Rightarrow> comment_op list \<Rightarrow> db" where
  "run_comment_ops d ops = foldl apply_comment_op d ops"

text \<open>
  The documents a paginated read selects from, in the order the query yields them.
\<close>

definition posts_of_user :: "db \<Rightarrow> oid \<Rightarrow> oid post_doc list" where
  "posts_of_user d u = map post_doc.truncate (filter (\<lambda>p. post_owner_id p = u) (posts d))"

definition feed_order :: "db \<Rightarrow> owner_doc option post_doc list" where
  "feed_order d =
     map (populate (users d)) (map post_doc.truncate (sort_timestamp_desc (posts d)))"

definition at_most_five :: "error + 'a list \<Rightarrow> bool" where
  "at_most_five r = (case r of Inl _ \<Rightarrow> False | Inr xs \<Rightarrow> length xs \<le> 5)"

text \<open>
  The feed: the owner of a post, the item \<open>getFeed\<close> is to show for a post of that
  owner, and the posts of page \<open>n\<close> when all posts are listed newest first.
\<close>

definition owner_of :: "db \<Rightarrow> (oid, 'a) post_doc_scheme \<Rightarrow> user option" where
  "owner_of d p = find (\<lambda>u. user_oid u = post_owner_id p) (users d)"

definition feed_item_of :: "user \<Rightarrow> oid post \<Rightarrow> feed_item" where
  "feed_item_of u p =
     \<lparr>item_username = username u,
      item_profilePic = map_option toString_base64 (profile_picture u),
      item_timestamp = post_timestamp p,
      item_likeCount = post_like_count p,
      item_commentCount = post_comment_count p,
      item_content = post_content p,
      item_id = post_oid p\<rparr>"

definition newest_page :: "db \<Rightarrow> int \<Rightarrow> oid post list" where
  "newest_page d n = take 5 (drop (5 * nat (n - 1)) (sort_timestamp_desc (posts d)))"

section \<open>Example states\<close>

text \<open>
  Ann (archived) owns one post; Bob has commented on it and liked it.
\<close>

definition example_db :: db where
  "example_db =
     \<lparr>users =
        [\<lparr>user_oid = 1, username = ''ann'', first_name = ''Ann'', last_name = ''A'',
          profile_picture = Some ''Man'', profile_is_archived = True\<rparr>,
         \<lparr>user_oid = 2, username = ''bob'', first_name = ''Bob'', last_name = ''B'',
          profile_picture = None, profile_is_archived = False\<rparr>],
      posts =
        [\<lparr>post_oid = 10, post_owner_id = 1, post_content = ''hello'', post_timestamp = 100,
          post_like_count = 1, post_comment_count = 1, post_is_archived = False\<rparr>],
      comments =
        [\<lparr>comment_oid = 20, comment_post_id = 10, comment_owner_id = 2,
          comment_content = ''nice'', comment_timestamp = 110\<rparr>],
      likes =
        [\<lparr>like_oid = 30, like_post_id = 10, like_owner_id = 2, like_timestamp = 120\<rparr>],
      next_oid = 40,
      oplog = []\<rparr>"

text \<open>The same state after the post has gone: Bob's comment and like refer to no post.\<close>

definition orphan_db :: db where
  "orphan_db = example_db\<lparr>posts := []\<rparr>"

text \<open>Bob has commented twice on Ann's post.\<close>

definition two_comments_db :: db where
  "two_comments_db =
     example_db
       \<lparr>posts :=
          [\<lparr>post_oid = 10, post_owner_id = 1, post_content = ''hello'', post_timestamp = 100,
            post_like_count = 1, post_comment_count = 2, post_is_archived = False\<rparr>],
        comments :=
          comments example_db @
          [\<lparr>comment_oid = 21, comment_post_id = 10, comment_owner_id = 2,
            comment_content = ''again'', comment_timestamp = 111\<rparr>]\<rparr>"

text \<open>
  Twelve posts of one user, stored oldest first, with twelve comments and twelve likes
  on the first of them.
\<close>

definition paging_db :: db where
  "paging_db =
     \<lparr>users =
        [\<lparr>user_oid = 1, username = ''ann'', first_name = ''Ann'', last_name = ''A'',
          profile_picture = Some ''Man'', profile_is_archived = False\<rparr>],
      posts =
        map (\<lambda>n. \<lparr>post_oid = n, post_owner_id = 1, post_content = ''post'',
                  post_timestamp = int n, post_like_count = (if n = 0 then 12 else 0),
                  post_comment_count = (if n = 0 then 12 else 0), post_is_archived = False\<rparr>)
          [0, 1, 2, 3, 4, 5, 6, 7, 8, 9, 10, 11],
      comments =
        map (\<lambda>n. \<lparr>comment_oid = 100 + n, comment_post_id = 0, comment_owner_id = 1,
                  comment_content = ''text'', comment_timestamp = int n\<rparr>)
          [0, 1, 2, 3, 4, 5, 6, 7, 8, 9, 10, 11],
      likes =
        map (\<lambda>n. \<lparr>like_oid = 200 + n, like_post_id = 0, like_owner_id = 1,
                  like_timestamp = int n\<rparr>)
          [0, 1, 2, 3, 4, 5, 6, 7, 8, 9, 10, 11],
      next_oid = 300,
      oplog = []\<rparr>"

text \<open>
  Three posts of two users, stored out of time order.
\<close>

definition feed_db :: db where
  "feed_db =
     \<lparr>users =
        [\<lparr>user_oid = 1, username = ''ann'', first_name = ''Ann'', last_name = ''A'',
          profile_picture = Some ''Man'', profile_is_archived = False\<rparr>,
         \<lparr>user_oid = 2, username = ''bob'', first_name = ''Bob'', last_name = ''B'',
          profile_picture = None, profile_is_archived = False\<rparr>],
      posts =
        [\<lparr>post_oid = 10, post_owner_id = 1, post_content = ''first'', post_timestamp = 100,
          post_like_count = 0, post_comment_count = 0, post_is_archived = False\<rparr>,
         \<lparr>post_oid = 11, post_owner_id = 2, post_content = ''third'', post_timestamp = 300,
          post_like_count = 2, post_comment_count = 1, post_is_archived = False\<rparr>,
         \<lparr>post_oid = 12, post_owner_id = 1, post_content = ''second'', post_timestamp = 200,
          post_like_count = 0, post_comment_count = 0, post_is_archived = True\<rparr>],
      comments = [], likes = [], next_oid = 40, oplog = []\<rparr>"

text \<open>
  Six posts of Ann, stored oldest first, and, newest of all, a post whose owner is not a
  stored user.
\<close>

definition ownerless_db :: db where
  "ownerless_db =
     \<lparr>users =
        [\<lparr>user_oid = 1, username = ''ann'', first_name = ''Ann'', last_name = ''A'',
          profile_picture = Some ''Man'', profile_is_archived = False\<rparr>],
      posts =
        \<lparr>post_oid = 50, post_owner_id = 9, post_content = ''late'', post_timestamp = 100,
         post_like_count = 0, post_comment_count = 0, post_is_archived = False\<rparr>
        # map (\<lambda>n. \<lparr>post_oid = n, post_owner_id = 1, post_content = ''post'',
                      post_timestamp = int n, post_like_count = 0, post_comment_count = 0,
                      post_is_archived = False\<rparr>)
            [0, 1, 2, 3, 4, 5],
      comments = [], likes = [], next_oid = 60, oplog = []\<rparr>"

section \<open>Lists: first-match update and deletion\<close>

lemma map_key_update_first:
  "(\<And>x. k (f x) = k x) \<Longrightarrow> map k (update_first P f xs) = map k xs"
  by (induction xs) simp_all

lemma update_first_unique_key:
  "distinct (map k xs) \<Longrightarrow>
     update_first (\<lambda>x. k x = i) f xs = map (\<lambda>x. if k x = i then f x else x) xs"
proof (induction xs)
  case Nil
  show ?case by simp
next
  case (Cons x xs)
  show ?case
  proof (cases "k x = i")
    case True
    with Cons.prems have "\<forall>y\<in>set xs. k y \<noteq> i" by (auto simp: image_iff)
    then have "map (\<lambda>x. if k x = i then f x else x) xs = xs"
      by (simp add: map_idI)
    with True show ?thesis by simp
  next
    case False
    with Cons show ?thesis by simp
  qed
qed

lemma find_update_first:
  "(\<And>x. k (f x) = k x) \<Longrightarrow>
     find (\<lambda>x. k x = j) (update_first (\<lambda>x. k x = i) f xs) =
       (if j = i then map_option f (find (\<lambda>x. k x = i) xs) else find (\<lambda>x. k x = j) xs)"
  by (induction xs) auto

lemma delete_first_none: "find P xs = None \<Longrightarrow> delete_first P xs = xs"
  by (induction xs) (auto split: if_splits)

lemma filter_delete_first:
  "find P xs = Some x \<Longrightarrow>
     length (filter Q xs) = length (filter Q (delete_first P xs)) + (if Q x then 1 else 0)"
  by (induction xs) (auto split: if_splits)

lemma delete_first_unique_key:
  "distinct (map k xs) \<Longrightarrow> delete_first (\<lambda>x. k x = i) xs = filter (\<lambda>x. k x \<noteq> i) xs"
proof (induction xs)
  case Nil
  show ?case by simp
next
  case (Cons x xs)
  show ?case
  proof (cases "k x = i")
    case True
    with Cons.prems have "\<forall>y\<in>set xs. k y \<noteq> i" by (auto simp: image_iff)
    then have "filter (\<lambda>x. k x \<noteq> i) xs = xs" by simp
    with True show ?thesis by simp
  next
    case False
    with Cons show ?thesis by simp
  qed
qed

lemma update_first_none: "find P xs = None \<Longrightarrow> update_first P f xs = xs"
  by (induction xs) (auto split: if_splits)

lemma find_exists_key: "find P xs = Some x \<Longrightarrow> P x"
  by (induction xs) (auto split: if_splits)

lemma find_exists: "\<exists>x\<in>set xs. P x \<Longrightarrow> \<exists>y. find P xs = Some y \<and> P y"
  by (induction xs) auto

section \<open>Comment counters\<close>

lemma createNewComment_consistent:
  assumes "comment_counts_consistent d"
  shows "comment_counts_consistent (snd (createNewComment d pid uid content now))"
proof (cases "content = []")
  case True
  with assms show ?thesis by (simp add: createNewComment_def)
next
  case False
  from assms have dist: "distinct (map post_oid (posts d))"
    and cnt: "\<forall>p\<in>set (posts d).
                post_comment_count p = int (length (comments_of_post d (post_oid p)))"
    by (simp_all add: comment_counts_consistent_def list_all_iff)
  let ?inc = "\<lambda>p::oid post. p\<lparr>post_comment_count := post_comment_count p + 1\<rparr>"
  let ?d' = "snd (createNewComment d pid uid content now)"
  have posts': "posts ?d' = update_first (\<lambda>p. post_oid p = pid) ?inc (posts d)"
    and comments': "comments ?d' = comments d @
          [\<lparr>comment_oid = next_oid d, comment_post_id = pid, comment_owner_id = uid,
            comment_content = content, comment_timestamp = now\<rparr>]"
    using False by (simp_all add: createNewComment_def Let_def touch_def)
  have "map post_oid (posts ?d') = map post_oid (posts d)"
    unfolding posts' by (rule map_key_update_first) simp
  with dist have d1: "distinct (map post_oid (posts ?d'))" by simp
  have upd: "posts ?d' = map (\<lambda>p. if post_oid p = pid then ?inc p else p) (posts d)"
    unfolding posts' using dist by (rule update_first_unique_key)
  have d2: "\<forall>p\<in>set (posts ?d').
              post_comment_count p = int (length (comments_of_post ?d' (post_oid p)))"
    using cnt by (auto simp: upd comments_of_post_def comments')
  from d1 d2 show ?thesis
    by (simp add: comment_counts_consistent_def list_all_iff)
qed

lemma delComment_consistent:
  assumes "comment_counts_consistent d"
  shows "comment_counts_consistent (snd (delComment d i))"
proof (cases "find (\<lambda>c. comment_oid c = i) (comments d)")
  case None
  with assms show ?thesis
    by (simp add: delComment_def touch_def comment_counts_consistent_def comments_of_post_def)
next
  case (Some c)
  from assms have dist: "distinct (map post_oid (posts d))"
    and cnt: "\<forall>p\<in>set (posts d).
                post_comment_count p = int (length (comments_of_post d (post_oid p)))"
    by (simp_all add: comment_counts_consistent_def list_all_iff)
  let ?dec = "\<lambda>p::oid post. p\<lparr>post_comment_count := post_comment_count p - 1\<rparr>"
  let ?d' = "snd (delComment d i)"
  have posts': "posts ?d' = update_first (\<lambda>p. post_oid p = comment_post_id c) ?dec (posts d)"
    and comments': "comments ?d' = delete_first (\<lambda>c. comment_oid c = i) (comments d)"
    using Some by (simp_all add: delComment_def Let_def touch_def)
  have "map post_oid (posts ?d') = map post_oid (posts d)"
    unfolding posts' by (rule map_key_update_first) simp
  with dist have d1: "distinct (map post_oid (posts ?d'))" by simp
  have upd: "posts ?d' = map (\<lambda>p. if post_oid p = comment_post_id c then ?dec p else p) (posts d)"
    unfolding posts' using dist by (rule update_first_unique_key)
  have len: "\<And>j. length (comments_of_post d j) =
      length (comments_of_post ?d' j) + (if comment_post_id c = j then 1 else 0)"
    unfolding comments_of_post_def comments' using filter_delete_first [OF Some] by simp
  have d2: "\<forall>p\<in>set (posts ?d').
              post_comment_count p = int (length (comments_of_post ?d' (post_oid p)))"
    using cnt by (auto simp: upd len)
  from d1 d2 show ?thesis
    by (simp add: comment_counts_consistent_def list_all_iff)
qed

lemma run_comment_ops_consistent:
  "comment_counts_consistent d \<Longrightarrow> comment_counts_consistent (run_comment_ops d ops)"
  unfolding run_comment_ops_def
proof (induction ops arbitrary: d)
  case Nil
  then show ?case by simp
next
  case (Cons a ops)
  have "comment_counts_consistent (apply_comment_op d a)"
    using Cons.prems
    by (cases a) (simp_all add: createNewComment_consistent delComment_consistent)
  then show ?case using Cons.IH by simp
qed


lemma createNewComment_step:
  fixes d :: db and pid uid :: oid and content :: string and now :: date
  assumes "content \<noteq> []"
  defines "r \<equiv> createNewComment d pid uid content now"
  shows "\<exists>c. fst r = Inr c \<and> comment_post_id c = pid \<and> comments (snd r) = comments d @ [c]"
    and "comment_count_of (snd r) pid = map_option (\<lambda>n. n + 1) (comment_count_of d pid)"
    and "\<forall>j. j \<noteq> pid \<longrightarrow> comment_count_of (snd r) j = comment_count_of d j"
proof -
  let ?inc = "\<lambda>p::oid post. p\<lparr>post_comment_count := post_comment_count p + 1\<rparr>"
  have posts': "posts (snd r) = update_first (\<lambda>p. post_oid p = pid) ?inc (posts d)"
    using assms(1) by (simp add: r_def createNewComment_def Let_def touch_def)
  have fnd: "\<And>j. find (\<lambda>p. post_oid p = j) (posts (snd r)) =
      (if j = pid then map_option ?inc (find (\<lambda>p. post_oid p = pid) (posts d))
       else find (\<lambda>p. post_oid p = j) (posts d))"
    unfolding posts' by (rule find_update_first) simp
  show "\<exists>c. fst r = Inr c \<and> comment_post_id c = pid \<and> comments (snd r) = comments d @ [c]"
    using assms(1) by (simp add: r_def createNewComment_def Let_def touch_def)
  show "comment_count_of (snd r) pid = map_option (\<lambda>n. n + 1) (comment_count_of d pid)"
    by (simp add: comment_count_of_def stored_post_def fnd option.map_comp o_def)
  show "\<forall>j. j \<noteq> pid \<longrightarrow> comment_count_of (snd r) j = comment_count_of d j"
    by (simp add: comment_count_of_def stored_post_def fnd)
qed

lemma delComment_not_found:
  assumes "find (\<lambda>c. comment_oid c = i) (comments d) = None"
  shows "fst (delComment d i) = None"
    and "posts (snd (delComment d i)) = posts d"
    and "comments (snd (delComment d i)) = comments d"
  using assms by (simp_all add: delComment_def touch_def)

lemma delComment_found:
  fixes d :: db and k :: oid
  assumes "find (\<lambda>c. comment_oid c = k) (comments d) = Some c"
  defines "r \<equiv> delComment d k"
  shows "fst r = Some c"
    and "comment_oid c = k"
    and "comments (snd r) = delete_first (\<lambda>x. comment_oid x = k) (comments d)"
    and "length (comments (snd r)) + 1 = length (comments d)"
    and "comment_count_of (snd r) (comment_post_id c) =
           map_option (\<lambda>n. n - 1) (comment_count_of d (comment_post_id c))"
    and "\<forall>j. j \<noteq> comment_post_id c \<longrightarrow> comment_count_of (snd r) j = comment_count_of d j"
proof -
  let ?dec = "\<lambda>p::oid post. p\<lparr>post_comment_count := post_comment_count p - 1\<rparr>"
  have posts': "posts (snd r) =
      update_first (\<lambda>p. post_oid p = comment_post_id c) ?dec (posts d)"
    and comments': "comments (snd r) = delete_first (\<lambda>c. comment_oid c = k) (comments d)"
    using assms(1) by (simp_all add: r_def delComment_def Let_def touch_def)
  have fnd: "\<And>j. find (\<lambda>p. post_oid p = j) (posts (snd r)) =
      (if j = comment_post_id c
       then map_option ?dec (find (\<lambda>p. post_oid p = comment_post_id c) (posts d))
       else find (\<lambda>p. post_oid p = j) (posts d))"
    unfolding posts' by (rule find_update_first) simp
  show "fst r = Some c"
    using assms(1) by (simp add: r_def delComment_def Let_def)
  show "comment_oid c = k"
    using find_exists_key [OF assms(1)] .
  show "comments (snd r) = delete_first (\<lambda>x. comment_oid x = k) (comments d)"
    by (rule comments')
  show "length (comments (snd r)) + 1 = length (comments d)"
    unfolding comments' using filter_delete_first [OF assms(1), of "\<lambda>_. True"] by simp
  show "comment_count_of (snd r) (comment_post_id c) =
           map_option (\<lambda>n. n - 1) (comment_count_of d (comment_post_id c))"
    by (simp add: comment_count_of_def stored_post_def fnd option.map_comp o_def)
  show "\<forall>j. j \<noteq> comment_post_id c \<longrightarrow> comment_count_of (snd r) j = comment_count_of d j"
    by (simp add: comment_count_of_def stored_post_def fnd)
qed

text \<open>
  Claim C2. From a consistent state, after any sequence of \<open>createNewComment\<close> and
  \<open>delComment\<close> calls every post's \<open>post_comment_count\<close> is the number of comments
  that reference the post. A creation that succeeds (non-empty content) appends one
  comment and adds exactly 1 to the counter of the post it names, and to no other; a
  deletion whose id matches no comment returns null and leaves posts and comments as
  they were; a deletion that finds a comment removes that comment, the first with the
  given id, and subtracts exactly 1 from the counter of its post, and from no other.
\<close>

theorem comment_count_tracks_comments:
  "(comment_counts_consistent d \<longrightarrow>
      list_all (\<lambda>p. post_comment_count p =
                  int (length (comments_of_post (run_comment_ops d ops) (post_oid p))))
        (posts (run_comment_ops d ops))) \<and>
   (content \<noteq> [] \<longrightarrow>
      (\<exists>c. fst (createNewComment d pid uid content now) = Inr c \<and> comment_post_id c = pid \<and>
           comments (snd (createNewComment d pid uid content now)) = comments d @ [c]) \<and>
      comment_count_of (snd (createNewComment d pid uid content now)) pid =
        map_option (\<lambda>n. n + 1) (comment_count_of d pid) \<and>
      (\<forall>j. j \<noteq> pid \<longrightarrow>
         comment_count_of (snd (createNewComment d pid uid content now)) j =
           comment_count_of d j)) \<and>
   (find (\<lambda>c. comment_oid c = i) (comments d) = None \<longrightarrow>
      fst (delComment d i) = None \<and>
      posts (snd (delComment d i)) = posts d \<and>
      comments (snd (delComment d i)) = comments d) \<and>
   (\<forall>c. find (\<lambda>c. comment_oid c = k) (comments d) = Some c \<longrightarrow>
      fst (delComment d k) = Some c \<and>
      comment_oid c = k \<and>
      comments (snd (delComment d k)) = delete_first (\<lambda>x. comment_oid x = k) (comments d) \<and>
      length (comments (snd (delComment d k))) + 1 = length (comments d) \<and>
      comment_count_of (snd (delComment d k)) (comment_post_id c) =
        map_option (\<lambda>n. n - 1) (comment_count_of d (comment_post_id c)) \<and>
      (\<forall>j. j \<noteq> comment_post_id c \<longrightarrow>
         comment_count_of (snd (delComment d k)) j = comment_count_of d j))"
proof -
  have A: "comment_counts_consistent d \<longrightarrow>
      list_all (\<lambda>p. post_comment_count p =
                  int (length (comments_of_post (run_comment_ops d ops) (post_oid p))))
        (posts (run_comment_ops d ops))"
  proof
    assume "comment_counts_consistent d"
    then have "comment_counts_consistent (run_comment_ops d ops)"
      by (rule run_comment_ops_consistent)
    then show "list_all (\<lambda>p. post_comment_count p =
                  int (length (comments_of_post (run_comment_ops d ops) (post_oid p))))
        (posts (run_comment_ops d ops))"
      by (simp add: comment_counts_consistent_def)
  qed
  have B: "content \<noteq> [] \<longrightarrow>
      (\<exists>c. fst (createNewComment d pid uid content now) = Inr c \<and> comment_post_id c = pid \<and>
           comments (snd (createNewComment d pid uid content now)) = comments d @ [c]) \<and>
      comment_count_of (snd (createNewComment d pid uid content now)) pid =
        map_option (\<lambda>n. n + 1) (comment_count_of d pid) \<and>
      (\<forall>j. j \<noteq> pid \<longrightarrow>
         comment_count_of (snd (createNewComment d pid uid content now)) j =
           comment_count_of d j)"
    by (intro impI conjI) (erule createNewComment_step)+
  have C: "find (\<lambda>c. comment_oid c = i) (comments d) = None \<longrightarrow>
      fst (delComment d i) = None \<and>
      posts (snd (delComment d i)) = posts d \<and>
      comments (snd (delComment d i)) = comments d"
    by (intro impI conjI) (erule delComment_not_found)+
  have D: "\<forall>c. find (\<lambda>c. comment_oid c = k) (comments d) = Some c \<longrightarrow>
      fst (delComment d k) = Some c \<and>
      comment_oid c = k \<and>
      comments (snd (delComment d k)) = delete_first (\<lambda>x. comment_oid x = k) (comments d) \<and>
      length (comments (snd (delComment d k))) + 1 = length (comments d) \<and>
      comment_count_of (snd (delComment d k)) (comment_post_id c) =
        map_option (\<lambda>n. n - 1) (comment_count_of d (comment_post_id c)) \<and>
      (\<forall>j. j \<noteq> comment_post_id c \<longrightarrow>
         comment_count_of (snd (delComment d k)) j = comment_count_of d j)"
  proof (rule allI, rule impI)
    fix c
    assume f: "find (\<lambda>c. comment_oid c = k) (comments d) = Some c"
    show "fst (delComment d k) = Some c \<and>
      comment_oid c = k \<and>
      comments (snd (delComment d k)) = delete_first (\<lambda>x. comment_oid x = k) (comments d) \<and>
      length (comments (snd (delComment d k))) + 1 = length (comments d) \<and>
      comment_count_of (snd (delComment d k)) (comment_post_id c) =
        map_option (\<lambda>n. n - 1) (comment_count_of d (comment_post_id c)) \<and>
      (\<forall>j. j \<noteq> comment_post_id c \<longrightarrow>
         comment_count_of (snd (delComment d k)) j = comment_count_of d j)"
      by (intro conjI) (rule delComment_found [OF f])+
  qed
  show ?thesis by (rule conjI [OF A conjI [OF B conjI [OF C D]]])
qed


theorem comment_count_tracks_comments_witness:
  "comment_counts_consistent example_db \<and>
   comment_count_of
     (run_comment_ops example_db
        [CreateComment 10 1 ''thanks'' 130, DeleteComment 20, DeleteComment 99,
         CreateComment 10 2 [] 140]) 10 = Some 1 \<and>
   length (comments_of_post
     (run_comment_ops example_db
        [CreateComment 10 1 ''thanks'' 130, DeleteComment 20, DeleteComment 99,
         CreateComment 10 2 [] 140]) 10) = 1 \<and>
   ''thanks'' \<noteq> [] \<and>
   comment_count_of (snd (createNewComment example_db 10 1 ''thanks'' 130)) 10 = Some 2 \<and>
   find (\<lambda>c. comment_oid c = 99) (comments example_db) = None \<and>
   comment_count_of (snd (delComment example_db 99)) 10 = Some 1 \<and>
   find (\<lambda>c. comment_oid c = 20) (comments example_db) =
     Some \<lparr>comment_oid = 20, comment_post_id = 10, comment_owner_id = 2,
           comment_content = ''nice'', comment_timestamp = 110\<rparr> \<and>
   comment_count_of (snd (delComment example_db 20)) 10 = Some 0"
  using comment_count_tracks_comments
    [of example_db
        "[CreateComment 10 1 ''thanks'' 130, DeleteComment 20, DeleteComment 99,
          CreateComment 10 2 [] 140]"
        "''thanks''" 10 1 130 99 20]
  by (simp add: example_db_def comment_counts_consistent_def comments_of_post_def
      comment_count_of_def stored_post_def run_comment_ops_def createNewComment_def
      delComment_def touch_def Let_def)

section \<open>Likes\<close>

text \<open>
  Claim C3. When a like for the pair (post, user) is stored, \<open>createNewLike\<close> for
  that pair returns 200 (not 201) after a single read of the likes: no like is
  inserted, no post is written and the post's \<open>post_like_count\<close> is what it was. The
  controller \<open>createLike\<close> answers 200 with the "already liked" message.
\<close>

theorem duplicate_like_leaves_count:
  assumes "\<exists>l\<in>set (likes d). like_post_id l = pid \<and> like_owner_id l = user_oid u"
  shows "fst (createNewLike d pid (user_oid u) now) = Inr 200 \<and>
         snd (createNewLike d pid (user_oid u) now) = d\<lparr>oplog := oplog d @ [Find Likes]\<rparr> \<and>
         likes (snd (createNewLike d pid (user_oid u) now)) = likes d \<and>
         posts (snd (createNewLike d pid (user_oid u) now)) = posts d \<and>
         like_count_of (snd (createNewLike d pid (user_oid u) now)) pid = like_count_of d pid \<and>
         fst (createLike d pid u now) =
           \<lparr>status = 200, body = JsonMessage ''You have already liked this post.''\<rparr> \<and>
         snd (createLike d pid u now) = d\<lparr>oplog := oplog d @ [Find Likes]\<rparr>"
proof -
  from assms obtain l where
    l: "find (\<lambda>l. like_post_id l = pid \<and> like_owner_id l = user_oid u) (likes d) = Some l"
    using find_exists [of "likes d" "\<lambda>l. like_post_id l = pid \<and> like_owner_id l = user_oid u"]
    by blast
  have r: "createNewLike d pid (user_oid u) now = (Inr 200, d\<lparr>oplog := oplog d @ [Find Likes]\<rparr>)"
    by (simp add: createNewLike_def l touch_def)
  show ?thesis
    by (simp add: r createLike_def like_count_of_def stored_post_def)
qed

theorem duplicate_like_leaves_count_witness:
  "fst (createNewLike example_db 10 2 500) = Inr 200 \<and>
   like_count_of (snd (createNewLike example_db 10 2 500)) 10 = Some 1 \<and>
   length (likes (snd (createNewLike example_db 10 2 500))) = 1 \<and>
   status (fst (createLike example_db 10 (users example_db ! 1) 500)) = 200"
  using duplicate_like_leaves_count [of example_db 10 "users example_db ! 1" 500]
  by (simp add: example_db_def like_count_of_def stored_post_def)

section \<open>Deleting a profile\<close>

text \<open>
  Claim C4. For a stored user whose \<open>profile_is_archived\<close> is false,
  \<open>deleteProfile\<close> returns status 400 with its message after the one lookup of the
  user; users, posts, comments and likes are unchanged, and the controller answers 400
  with that message.
\<close>

theorem unarchived_profile_is_not_deleted:
  assumes "find (\<lambda>x. user_oid x = user_oid u) (users d) = Some u'"
    and "\<not> profile_is_archived u'"
  shows "fst (deleteProfile d (user_oid u)) =
           Inr \<lparr>result_status = 400,
                result_message = Some ''Cannot delete a profile that is not archived''\<rparr> \<and>
         snd (deleteProfile d (user_oid u)) = d\<lparr>oplog := oplog d @ [Find Users]\<rparr> \<and>
         users (snd (deleteProfile d (user_oid u))) = users d \<and>
         posts (snd (deleteProfile d (user_oid u))) = posts d \<and>
         comments (snd (deleteProfile d (user_oid u))) = comments d \<and>
         likes (snd (deleteProfile d (user_oid u))) = likes d \<and>
         fst (deleteProfile_controller d u) =
           Inr \<lparr>status = 400,
                body = JsonMessage ''Cannot delete a profile that is not archived''\<rparr> \<and>
         snd (deleteProfile_controller d u) = d\<lparr>oplog := oplog d @ [Find Users]\<rparr>"
proof -
  have r: "deleteProfile d (user_oid u) =
      (Inr \<lparr>result_status = 400,
            result_message = Some ''Cannot delete a profile that is not archived''\<rparr>,
       d\<lparr>oplog := oplog d @ [Find Users]\<rparr>)"
    using assms by (simp add: deleteProfile_def touch_def)
  show ?thesis
    by (simp add: r deleteProfile_controller_def)
qed

theorem unarchived_profile_is_not_deleted_witness:
  "find (\<lambda>x. user_oid x = 2) (users example_db) = Some (users example_db ! 1) \<and>
   \<not> profile_is_archived (users example_db ! 1) \<and>
   fst (deleteProfile_controller example_db (users example_db ! 1)) =
     Inr \<lparr>status = 400,
          body = JsonMessage ''Cannot delete a profile that is not archived''\<rparr> \<and>
   users (snd (deleteProfile example_db 2)) = users example_db \<and>
   posts (snd (deleteProfile example_db 2)) = posts example_db \<and>
   comments (snd (deleteProfile example_db 2)) = comments example_db \<and>
   likes (snd (deleteProfile example_db 2)) = likes example_db"
  using unarchived_profile_is_not_deleted
    [of "users example_db ! 1" example_db "users example_db ! 1"]
  by (simp add: example_db_def)

text \<open>
  What \<open>deleteAllPosts\<close> leaves behind when it runs to its end, whatever the user's own
  comments and likes: the comments and likes of every other user, and the posts of
  every other user. A comment of another user on a post of the deleted user therefore
  outlives the post.
\<close>

lemma find_targets_frame:
  "users (snd (find_targets ids d)) = users d"
  "posts (snd (find_targets ids d)) = posts d"
  "comments (snd (find_targets ids d)) = comments d"
  "likes (snd (find_targets ids d)) = likes d"
  by (simp_all add: find_targets_def)

lemma save_comment_counts_frame:
  "comments (snd (save_comment_counts ts d)) = comments d \<and>
   likes (snd (save_comment_counts ts d)) = likes d \<and>
   users (snd (save_comment_counts ts d)) = users d \<and>
   map post_oid (posts (snd (save_comment_counts ts d))) = map post_oid (posts d) \<and>
   map post_owner_id (posts (snd (save_comment_counts ts d))) = map post_owner_id (posts d)"
  by (induction ts d rule: save_comment_counts.induct)
     (simp_all add: touch_def map_key_update_first)

lemma save_like_counts_frame:
  "comments (snd (save_like_counts ts d)) = comments d \<and>
   likes (snd (save_like_counts ts d)) = likes d \<and>
   users (snd (save_like_counts ts d)) = users d \<and>
   map post_oid (posts (snd (save_like_counts ts d))) = map post_oid (posts d) \<and>
   map post_owner_id (posts (snd (save_like_counts ts d))) = map post_owner_id (posts d)"
proof (induction ts arbitrary: d)
  case Nil
  show ?case by simp
next
  case (Cons t ts)
  show ?case
  proof (cases t)
    case None
    then show ?thesis by simp
  next
    case (Some targetPost)
    let ?d1 = "touch (Update Posts)
                 (d\<lparr>posts := update_first (\<lambda>q. post_oid q = post_oid targetPost)
                                 (\<lambda>q. q\<lparr>post_like_count := post_like_count targetPost - 1\<rparr>)
                                 (posts d)\<rparr>)"
    have step: "snd (save_like_counts (t # ts) d) = snd (save_like_counts ts ?d1)"
      unfolding Some by (cases "save_like_counts ts ?d1") (simp add: Let_def split: sum.splits)
    have "comments ?d1 = comments d" "likes ?d1 = likes d" "users ?d1 = users d"
      "map post_oid (posts ?d1) = map post_oid (posts d)"
      "map post_owner_id (posts ?d1) = map post_owner_id (posts d)"
      by (simp_all add: touch_def map_key_update_first)
    with Cons.IH [of ?d1] show ?thesis
      unfolding step by simp
  qed
qed

lemma filter_by_owner_ids:
  assumes "map post_oid ps = map post_oid qs" and "map post_owner_id ps = map post_owner_id qs"
  shows "map post_oid (filter (\<lambda>p. post_owner_id p \<noteq> i) ps) =
         map post_oid (filter (\<lambda>p. post_owner_id p \<noteq> i) qs)"
  using assms
proof (induction ps arbitrary: qs)
  case Nil
  then show ?case by simp
next
  case (Cons p ps)
  then obtain q qs' where "qs = q # qs'" by (cases qs) auto
  with Cons show ?case by auto
qed

lemma deleteAllPosts_survivors:
  assumes "fst (deleteAllPosts d i) = Inr ()"
  shows "comments (snd (deleteAllPosts d i)) = filter (\<lambda>c. comment_owner_id c \<noteq> i) (comments d)"
    and "likes (snd (deleteAllPosts d i)) = filter (\<lambda>l. like_owner_id l \<noteq> i) (likes d)"
    and "map post_oid (posts (snd (deleteAllPosts d i))) =
           map post_oid (filter (\<lambda>p. post_owner_id p \<noteq> i) (posts d))"
proof -
  define d1 where "d1 = touch (Find Comments) d"
  define cs where "cs = filter (\<lambda>c. comment_owner_id c = i) (comments d1)"
  obtain t1 d2 where ft1: "find_targets (map comment_post_id cs) d1 = (t1, d2)"
    by (cases "find_targets (map comment_post_id cs) d1")
  define d3 where "d3 = touch (Find Likes) d2"
  define ls where "ls = filter (\<lambda>l. like_owner_id l = i) (likes d3)"
  obtain r4 d4 where sc: "save_comment_counts t1 d3 = (r4, d4)"
    by (cases "save_comment_counts t1 d3")
  obtain t2 d5 where ft2: "find_targets (map like_post_id ls) d4 = (t2, d5)"
    by (cases "find_targets (map like_post_id ls) d4")
  define d6 where
    "d6 = touch (Delete Posts) (d5\<lparr>posts := filter (\<lambda>p. post_owner_id p \<noteq> i) (posts d5)\<rparr>)"
  obtain r7 d7 where sl: "save_like_counts t2 d6 = (r7, d7)"
    by (cases "save_like_counts t2 d6")
  define d8 where
    "d8 = touch (Delete Comments)
            (d7\<lparr>comments := filter (\<lambda>c. comment_owner_id c \<noteq> i) (comments d7)\<rparr>)"
  define d9 where
    "d9 = touch (Delete Likes) (d8\<lparr>likes := filter (\<lambda>l. like_owner_id l \<noteq> i) (likes d8)\<rparr>)"
  have run: "deleteAllPosts d i =
      (case r4 of
         Inl e \<Rightarrow> (Inl e, d4)
       | Inr _ \<Rightarrow>
           (case r7 of
              Inl e \<Rightarrow> (Inl e, d7)
            | Inr failed \<Rightarrow> if failed then (Inl UnhandledRejection, d8) else (Inr (), d9)))"
    unfolding deleteAllPosts_def Let_def
      d1_def [symmetric] cs_def [symmetric] ft1 prod.case d3_def [symmetric] ls_def [symmetric]
      sc ft2 d6_def [symmetric] sl d8_def [symmetric] d9_def [symmetric]
    by (simp split: sum.splits)
  from assms have whole: "snd (deleteAllPosts d i) = d9"
    unfolding run by (simp split: sum.splits if_splits)
  have f2: "comments d2 = comments d" "likes d2 = likes d" "posts d2 = posts d"
    using find_targets_frame [of "map comment_post_id cs" d1] ft1
    by (simp_all add: d1_def touch_def)
  have f4: "comments d4 = comments d" "likes d4 = likes d"
    "map post_oid (posts d4) = map post_oid (posts d)"
    "map post_owner_id (posts d4) = map post_owner_id (posts d)"
    using save_comment_counts_frame [of t1 d3] sc f2
    by (simp_all add: d3_def touch_def)
  have f5: "comments d5 = comments d4" "likes d5 = likes d4" "posts d5 = posts d4"
    using find_targets_frame [of "map like_post_id ls" d4] ft2 by simp_all
  have f6: "comments d6 = comments d" "likes d6 = likes d"
    "map post_oid (posts d6) = map post_oid (filter (\<lambda>p. post_owner_id p \<noteq> i) (posts d))"
    using f4 f5 filter_by_owner_ids [OF f4(3) f4(4), of i]
    by (simp_all add: d6_def touch_def)
  have f7: "comments d7 = comments d" "likes d7 = likes d"
    "map post_oid (posts d7) = map post_oid (filter (\<lambda>p. post_owner_id p \<noteq> i) (posts d))"
    using save_like_counts_frame [of t2 d6] sl f6 by simp_all
  show "comments (snd (deleteAllPosts d i)) = filter (\<lambda>c. comment_owner_id c \<noteq> i) (comments d)"
    unfolding whole using f7(1) by (simp add: d9_def d8_def touch_def)
  show "likes (snd (deleteAllPosts d i)) = filter (\<lambda>l. like_owner_id l \<noteq> i) (likes d)"
    unfolding whole using f7(2) by (simp add: d9_def d8_def touch_def)
  show "map post_oid (posts (snd (deleteAllPosts d i))) =
           map post_oid (filter (\<lambda>p. post_owner_id p \<noteq> i) (posts d))"
    unfolding whole using f7(3) by (simp add: d9_def d8_def touch_def)
qed

lemma deleteAllPosts_keeps_reactions_of_others:
  assumes "fst (deleteAllPosts d i) = Inr ()"
    and "p \<in> set (posts d)" and "post_owner_id p = i"
    and "distinct (map post_oid (posts d))"
    and "c \<in> set (comments d)" and "comment_post_id c = post_oid p" and "comment_owner_id c \<noteq> i"
  shows "c \<in> set (comments (snd (deleteAllPosts d i)))"
    and "stored_post (snd (deleteAllPosts d i)) (post_oid p) = None"
proof -
  show "c \<in> set (comments (snd (deleteAllPosts d i)))"
    using assms by (simp add: deleteAllPosts_survivors)
  have "post_oid p \<notin> set (map post_oid (filter (\<lambda>q. post_owner_id q \<noteq> i) (posts d)))"
  proof
    assume "post_oid p \<in> set (map post_oid (filter (\<lambda>q. post_owner_id q \<noteq> i) (posts d)))"
    then obtain q where q: "q \<in> set (posts d)" "post_owner_id q \<noteq> i" "post_oid q = post_oid p"
      by auto
    with assms(2,4) have "q = p" by (meson distinct_map inj_onD)
    with q assms(3) show False by simp
  qed
  then have "post_oid p \<notin> set (map post_oid (posts (snd (deleteAllPosts d i))))"
    using deleteAllPosts_survivors(3) [OF assms(1)] by simp
  then have "\<forall>q\<in>set (posts (snd (deleteAllPosts d i))). post_oid q \<noteq> post_oid p"
    by (metis image_eqI set_map)
  then show "stored_post (snd (deleteAllPosts d i)) (post_oid p) = None"
    by (simp add: stored_post_def find_None_iff)
qed

text \<open>
  The callbacks at work. Two comments of the deleted user on one post: both callbacks
  read the count 2 and both write 1. A comment of the deleted user on a post that is
  gone: the callback fails on \<open>targetPost[0]\<close>, the process ends after the three
  reads, and nothing is deleted.
\<close>

lemma deleteAllPosts_stale_counts:
  "fst (deleteAllPosts two_comments_db 2) = Inr () \<and>
   comment_count_of two_comments_db 10 = Some 2 \<and>
   comment_count_of (snd (deleteAllPosts two_comments_db 2)) 10 = Some 1 \<and>
   comments (snd (deleteAllPosts two_comments_db 2)) = []"
  by (simp add: two_comments_db_def example_db_def deleteAllPosts_def find_targets_def
      touch_def Let_def comment_count_of_def stored_post_def)

lemma deleteAllPosts_orphan_ends_process:
  "deleteAllPosts orphan_db 2 =
     (Inl UnhandledRejection, orphan_db\<lparr>oplog := [Find Comments, Find Posts, Find Likes]\<rparr>)"
  by (simp add: orphan_db_def example_db_def deleteAllPosts_def find_targets_def touch_def
      Let_def)

text \<open>
  Claim C1. Ann's profile is archived and she owns post 10, on which Bob has one comment
  and one like. \<open>deleteProfile\<close> for Ann answers 200 and removes post 10, yet Bob's
  comment and like on post 10 are still stored and now refer to a post that does not
  exist: \<open>deleteAllPosts\<close> removes comments and likes by their owner only, where
  \<open>delPost\<close> removes them by post.
\<close>

theorem deleteProfile_orphans_reactions_of_others:
  "fst (deleteProfile example_db 1) = Inr \<lparr>result_status = 200, result_message = None\<rparr> \<and>
   posts (snd (deleteProfile example_db 1)) = [] \<and>
   comments_of_post (snd (deleteProfile example_db 1)) 10 =
     [\<lparr>comment_oid = 20, comment_post_id = 10, comment_owner_id = 2,
       comment_content = ''nice'', comment_timestamp = 110\<rparr>] \<and>
   likes_of_post (snd (deleteProfile example_db 1)) 10 =
     [\<lparr>like_oid = 30, like_post_id = 10, like_owner_id = 2, like_timestamp = 120\<rparr>] \<and>
   stored_post (snd (deleteProfile example_db 1)) 10 = None"
  by (simp add: example_db_def deleteProfile_def deleteAllPosts_def find_targets_def touch_def
      Let_def comments_of_post_def likes_of_post_def stored_post_def)

section \<open>Deleting a post\<close>

lemma delPost_state:
  "snd (delPost d (ObjectId i)) =
     d\<lparr>comments := filter (\<lambda>c. comment_post_id c \<noteq> i) (comments d),
       likes := filter (\<lambda>l. like_post_id l \<noteq> i) (likes d),
       posts := delete_first (\<lambda>p. post_oid p = i) (posts d),
       oplog := oplog d @ [Delete Comments, Delete Likes, Delete Posts]\<rparr>"
  and delPost_result:
    "fst (delPost d (ObjectId i)) = Inr (map_option post_doc.truncate (stored_post d i))"
  by (simp_all add: delPost_def Let_def touch_def stored_post_def)

lemma skip_limit_page:
  "1 \<le> p \<Longrightarrow>
     skip_limit ((p - 1) * itemsToFetch) itemsToFetch xs = Inr (take 5 (drop (5 * nat (p - 1)) xs))"
proof -
  assume "1 \<le> p"
  then have "nat ((p - 1) * 5) = 5 * nat (p - 1)" by simp
  with \<open>1 \<le> p\<close> show ?thesis
    by (simp add: skip_limit_def itemsToFetch_def)
qed

text \<open>
  Claim C5. For the id of a post, \<open>delPost\<close> removes every comment and every like whose
  post id is the given id and keeps all others, then removes the post with that id (the
  first one; the only one when ids are unique) and returns it. The storage calls are, in
  this order, the deletion of comments, the deletion of likes and the deletion of the
  post; no post is updated, and the posts that remain are unchanged. Afterwards no
  comment of the post is stored, and every page of its comments is empty.
\<close>

theorem delPost_cascades:
  "comments (snd (delPost d (ObjectId i))) = filter (\<lambda>c. comment_post_id c \<noteq> i) (comments d) \<and>
   comments_of_post (snd (delPost d (ObjectId i))) i = [] \<and>
   likes (snd (delPost d (ObjectId i))) = filter (\<lambda>l. like_post_id l \<noteq> i) (likes d) \<and>
   likes_of_post (snd (delPost d (ObjectId i))) i = [] \<and>
   fst (delPost d (ObjectId i)) = Inr (map_option post_doc.truncate (stored_post d i)) \<and>
   posts (snd (delPost d (ObjectId i))) = delete_first (\<lambda>p. post_oid p = i) (posts d) \<and>
   (distinct (map post_oid (posts d)) \<longrightarrow>
      stored_post (snd (delPost d (ObjectId i))) i = None \<and>
      posts (snd (delPost d (ObjectId i))) = filter (\<lambda>p. post_oid p \<noteq> i) (posts d)) \<and>
   users (snd (delPost d (ObjectId i))) = users d \<and>
   oplog (snd (delPost d (ObjectId i))) =
     oplog d @ [Delete Comments, Delete Likes, Delete Posts] \<and>
   (1 \<le> page \<longrightarrow>
      fst (getCommentsForPost (snd (delPost d (ObjectId i))) i page) = Inr [])"
proof -
  let ?d' = "snd (delPost d (ObjectId i))"
  have none: "comments_of_post ?d' i = []"
    by (simp add: delPost_state comments_of_post_def)
  have uniq: "distinct (map post_oid (posts d)) \<longrightarrow>
      stored_post ?d' i = None \<and> posts ?d' = filter (\<lambda>p. post_oid p \<noteq> i) (posts d)"
  proof
    assume "distinct (map post_oid (posts d))"
    then have "delete_first (\<lambda>p. post_oid p = i) (posts d) =
        filter (\<lambda>p. post_oid p \<noteq> i) (posts d)"
      by (rule delete_first_unique_key)
    then show "stored_post ?d' i = None \<and> posts ?d' = filter (\<lambda>p. post_oid p \<noteq> i) (posts d)"
      by (simp add: delPost_state stored_post_def find_None_iff)
  qed
  have page: "1 \<le> page \<longrightarrow> fst (getCommentsForPost ?d' i page) = Inr []"
    using none by (simp add: getCommentsForPost_def skip_limit_page comments_of_post_def)
  have rest: "comments ?d' = filter (\<lambda>c. comment_post_id c \<noteq> i) (comments d)"
    "likes ?d' = filter (\<lambda>l. like_post_id l \<noteq> i) (likes d)"
    "likes_of_post ?d' i = []"
    "posts ?d' = delete_first (\<lambda>p. post_oid p = i) (posts d)"
    "users ?d' = users d"
    "oplog ?d' = oplog d @ [Delete Comments, Delete Likes, Delete Posts]"
    by (simp_all add: delPost_state likes_of_post_def)
  from rest none uniq page delPost_result [of d i] show ?thesis
    by (intro conjI)
qed

theorem delPost_cascades_witness:
  "distinct (map post_oid (posts example_db)) \<and>
   comments_of_post example_db 10 \<noteq> [] \<and>
   comments (snd (delPost example_db (ObjectId 10))) = [] \<and>
   likes (snd (delPost example_db (ObjectId 10))) = [] \<and>
   posts (snd (delPost example_db (ObjectId 10))) = [] \<and>
   stored_post (snd (delPost example_db (ObjectId 10))) 10 = None \<and>
   (1::int) \<le> 1 \<and>
   fst (getCommentsForPost (snd (delPost example_db (ObjectId 10))) 10 1) = Inr []"
  using delPost_cascades [of example_db 10 1]
  by (simp add: example_db_def comments_of_post_def)

text \<open>
  Claim C10, as stated, at the id \<open>'abc'\<close>: no post has it, yet \<open>delPost\<close> raises
  \<open>CastError\<close> and the controller \<open>deletePost\<close> answers 500, with the comments and
  likes as they were.
\<close>

theorem delPost_uncastable_id_fails:
  "posts_with_id example_db (Uncastable ''abc'') = [] \<and>
   fst (delPost example_db (Uncastable ''abc'')) = Inl CastError \<and>
   fst (deletePost example_db (Uncastable ''abc'')) =
     \<lparr>status = 500, body = JsonError ''Internal server error''\<rparr> \<and>
   snd (deletePost example_db (Uncastable ''abc'')) = example_db"
  by (simp add: posts_with_id_def delPost_def deletePost_def internal_server_error_def)

text \<open>
  Claim C10, amended. When the id is an ObjectId that no post has, \<open>delPost\<close> still
  removes the comments and likes that reference the id, removes no post and returns null
  without raising; the controller \<open>deletePost\<close> answers 200 "Post deleted
  successfully". When the id is not an ObjectId, \<open>delPost\<close> raises \<open>CastError\<close>
  before any storage call, the state is untouched, and the controller answers 500.
\<close>

theorem delPost_without_post:
  "(posts_with_id d (ObjectId i) = [] \<longrightarrow>
      fst (delPost d (ObjectId i)) = Inr None \<and>
      posts (snd (delPost d (ObjectId i))) = posts d \<and>
      comments (snd (delPost d (ObjectId i))) =
        filter (\<lambda>c. comment_post_id c \<noteq> i) (comments d) \<and>
      likes (snd (delPost d (ObjectId i))) = filter (\<lambda>l. like_post_id l \<noteq> i) (likes d) \<and>
      comments_of_post (snd (delPost d (ObjectId i))) i = [] \<and>
      likes_of_post (snd (delPost d (ObjectId i))) i = [] \<and>
      deletePost d (ObjectId i) =
        (\<lparr>status = 200, body = JsonMessage ''Post deleted successfully''\<rparr>,
         snd (delPost d (ObjectId i)))) \<and>
   posts_with_id d (Uncastable s) = [] \<and>
   delPost d (Uncastable s) = (Inl CastError, d) \<and>
   deletePost d (Uncastable s) =
     (\<lparr>status = 500, body = JsonError ''Internal server error''\<rparr>, d)"
proof -
  have well_formed: "posts_with_id d (ObjectId i) = [] \<longrightarrow>
      fst (delPost d (ObjectId i)) = Inr None \<and>
      posts (snd (delPost d (ObjectId i))) = posts d \<and>
      comments (snd (delPost d (ObjectId i))) =
        filter (\<lambda>c. comment_post_id c \<noteq> i) (comments d) \<and>
      likes (snd (delPost d (ObjectId i))) = filter (\<lambda>l. like_post_id l \<noteq> i) (likes d) \<and>
      comments_of_post (snd (delPost d (ObjectId i))) i = [] \<and>
      likes_of_post (snd (delPost d (ObjectId i))) i = [] \<and>
      deletePost d (ObjectId i) =
        (\<lparr>status = 200, body = JsonMessage ''Post deleted successfully''\<rparr>,
         snd (delPost d (ObjectId i)))"
  proof
    assume "posts_with_id d (ObjectId i) = []"
    then have none: "stored_post d i = None"
      by (simp add: posts_with_id_def stored_post_def find_None_iff filter_empty_conv)
    then have same: "delete_first (\<lambda>p. post_oid p = i) (posts d) = posts d"
      unfolding stored_post_def by (rule delete_first_none)
    have "deletePost d (ObjectId i) =
        (\<lparr>status = 200, body = JsonMessage ''Post deleted successfully''\<rparr>,
         snd (delPost d (ObjectId i)))"
      using delPost_result [of d i]
      by (cases "delPost d (ObjectId i)") (simp add: deletePost_def)
    with none same show "fst (delPost d (ObjectId i)) = Inr None \<and>
      posts (snd (delPost d (ObjectId i))) = posts d \<and>
      comments (snd (delPost d (ObjectId i))) =
        filter (\<lambda>c. comment_post_id c \<noteq> i) (comments d) \<and>
      likes (snd (delPost d (ObjectId i))) = filter (\<lambda>l. like_post_id l \<noteq> i) (likes d) \<and>
      comments_of_post (snd (delPost d (ObjectId i))) i = [] \<and>
      likes_of_post (snd (delPost d (ObjectId i))) i = [] \<and>
      deletePost d (ObjectId i) =
        (\<lparr>status = 200, body = JsonMessage ''Post deleted successfully''\<rparr>,
         snd (delPost d (ObjectId i)))"
      by (simp add: delPost_state delPost_result comments_of_post_def likes_of_post_def)
  qed
  have uncastable: "posts_with_id d (Uncastable s) = []"
    "delPost d (Uncastable s) = (Inl CastError, d)"
    "deletePost d (Uncastable s) =
       (\<lparr>status = 500, body = JsonError ''Internal server error''\<rparr>, d)"
    by (simp_all add: posts_with_id_def delPost_def deletePost_def internal_server_error_def)
  from well_formed uncastable show ?thesis by (intro conjI)
qed

theorem delPost_without_post_witness:
  "posts_with_id orphan_db (ObjectId 10) = [] \<and>
   comments_of_post orphan_db 10 \<noteq> [] \<and>
   likes_of_post orphan_db 10 \<noteq> [] \<and>
   fst (delPost orphan_db (ObjectId 10)) = Inr None \<and>
   comments (snd (delPost orphan_db (ObjectId 10))) = [] \<and>
   likes (snd (delPost orphan_db (ObjectId 10))) = [] \<and>
   status (fst (deletePost orphan_db (ObjectId 10))) = 200 \<and>
   status (fst (deletePost orphan_db (Uncastable ''abc''))) = 500 \<and>
   comments (snd (deletePost orphan_db (Uncastable ''abc''))) = comments orphan_db"
  using delPost_without_post [of orphan_db 10 "''abc''"]
  by (simp add: orphan_db_def example_db_def posts_with_id_def comments_of_post_def
      likes_of_post_def)

section \<open>Archiving a post\<close>

lemma save_archived_state:
  "posts (snd (save_archived d p flag)) =
     update_first (\<lambda>q. post_oid q = post_oid p) (\<lambda>q. q\<lparr>post_is_archived := flag\<rparr>) (posts d)"
  "users (snd (save_archived d p flag)) = users d"
  "comments (snd (save_archived d p flag)) = comments d"
  "likes (snd (save_archived d p flag)) = likes d"
  by (auto simp: save_archived_def Let_def touch_def update_first_none
      split: option.splits)

lemma save_archived_lookup:
  "stored_post (snd (save_archived d p flag)) j =
     (if j = post_oid p
      then map_option (\<lambda>q. q\<lparr>post_is_archived := flag\<rparr>) (stored_post d (post_oid p))
      else stored_post d j)"
  unfolding stored_post_def save_archived_state
  by (rule find_update_first) simp

lemma save_archived_other_fields:
  "map post_doc.truncate (posts (snd (save_archived d p flag))) = map post_doc.truncate (posts d)"
  unfolding save_archived_state
  by (rule map_key_update_first) (simp add: post_doc.truncate_def)

text \<open>
  Claim C9. \<open>archivePost\<close> sets \<open>post_is_archived\<close> of the stored post to true and
  \<open>unarchivePost\<close> sets it to false. Every other stored post is as before, the
  projection of every post to its other fields (id, owner, content, timestamp, like
  count, comment count) is as before, and users, comments and likes are unchanged.
\<close>

theorem archive_changes_only_the_flag:
  "(\<forall>q. stored_post d (post_oid p) = Some q \<longrightarrow>
      stored_post (snd (archivePost d p)) (post_oid p) = Some (q\<lparr>post_is_archived := True\<rparr>) \<and>
      stored_post (snd (unarchivePost d p)) (post_oid p) = Some (q\<lparr>post_is_archived := False\<rparr>)) \<and>
   (\<forall>j. j \<noteq> post_oid p \<longrightarrow>
      stored_post (snd (archivePost d p)) j = stored_post d j \<and>
      stored_post (snd (unarchivePost d p)) j = stored_post d j) \<and>
   map post_doc.truncate (posts (snd (archivePost d p))) = map post_doc.truncate (posts d) \<and>
   map post_doc.truncate (posts (snd (unarchivePost d p))) = map post_doc.truncate (posts d) \<and>
   comments (snd (archivePost d p)) = comments d \<and>
   comments (snd (unarchivePost d p)) = comments d \<and>
   likes (snd (archivePost d p)) = likes d \<and>
   likes (snd (unarchivePost d p)) = likes d \<and>
   users (snd (archivePost d p)) = users d \<and>
   users (snd (unarchivePost d p)) = users d"
  by (simp add: archivePost_def unarchivePost_def save_archived_lookup
      save_archived_other_fields save_archived_state(2-4))

theorem archive_changes_only_the_flag_witness:
  "stored_post example_db 10 = Some (posts example_db ! 0) \<and>
   map_option post_is_archived
     (stored_post (snd (archivePost example_db (post_doc.truncate (posts example_db ! 0)))) 10)
     = Some True \<and>
   map_option post_is_archived
     (stored_post
        (snd (unarchivePost (snd (archivePost example_db (post_doc.truncate (posts example_db ! 0))))
               (post_doc.truncate (posts example_db ! 0)))) 10)
     = Some False \<and>
   map_option post_comment_count
     (stored_post (snd (archivePost example_db (post_doc.truncate (posts example_db ! 0)))) 10)
     = Some 1 \<and>
   stored_post (snd (archivePost example_db (post_doc.truncate (posts example_db ! 0)))) 11
     = None"
  using archive_changes_only_the_flag
      [of example_db "post_doc.truncate (posts example_db ! 0)"]
    archive_changes_only_the_flag
      [of "snd (archivePost example_db (post_doc.truncate (posts example_db ! 0)))"
          "post_doc.truncate (posts example_db ! 0)"]
  by (simp add: example_db_def stored_post_def post_doc.truncate_def)

section \<open>Page numbers\<close>

lemma three_halves_not_integer: "(3 / 2 :: rat) \<noteq> of_int n"
proof
  assume "3 / 2 = (of_int n :: rat)"
  then have "(of_int 3 :: rat) = of_int (2 * n)" by simp
  then have "3 = 2 * n" by (simp only: of_int_eq_iff)
  then show False by presburger
qed

lemma valid_page_is_positive_integer:
  assumes "Number_isInteger page" and "\<not> le_zero page"
  shows "\<exists>n::int. 1 \<le> n \<and> page = Fin (of_int n)"
proof (cases page)
  case (Fin r)
  with assms have r: "r = of_int \<lfloor>r\<rfloor>" and pos: "0 < r"
    by (simp_all add: Number_isInteger_def le_zero_def)
  from pos have "0 < \<lfloor>r\<rfloor>" by (subst (asm) r) (simp only: of_int_0_less_iff)
  then have "1 \<le> \<lfloor>r\<rfloor>" by simp
  with r Fin show ?thesis by blast
qed (use assms in \<open>simp_all add: Number_isInteger_def\<close>)

lemma positive_integer_is_valid_page:
  "1 \<le> n \<Longrightarrow> Number_isInteger (Fin (of_int n)) \<and> \<not> le_zero (Fin (of_int n)) \<and>
     integer_value (Fin (of_int n)) = n"
  by (simp add: Number_isInteger_def le_zero_def integer_value_def)

text \<open>
  Claim C7. When the page number is not a positive integer (zero, negative, fractional,
  not-a-number or infinite), \<open>getFeed\<close>, \<open>getCommsForPost\<close>, \<open>getLikesForPost\<close>
  and \<open>getPostByUsername\<close> answer 400 with the page-number error and return the state
  exactly as it was, access log included: no storage call has been made.
\<close>

theorem invalid_page_is_rejected_first:
  assumes "\<not> (\<exists>n::int. 1 \<le> n \<and> page = Fin (of_int n))"
  shows "getFeed d page = (invalid_page, d) \<and>
         getCommsForPost d post_id page = (invalid_page, d) \<and>
         getLikesForPost d post_id page = (invalid_page, d) \<and>
         getPostByUsername d requested_user page = (invalid_page, d) \<and>
         status invalid_page = 400"
proof -
  from assms have "\<not> Number_isInteger page \<or> le_zero page"
    using valid_page_is_positive_integer by blast
  then show ?thesis
    by (auto simp: getFeed_def getCommsForPost_def getLikesForPost_def getPostByUsername_def
        invalid_page_def)
qed

theorem invalid_page_is_rejected_first_witness:
  "getFeed example_db (Fin 0) = (invalid_page, example_db) \<and>
   getCommsForPost example_db 10 (Fin 0) = (invalid_page, example_db) \<and>
   getLikesForPost example_db 10 (Fin (3 / 2)) = (invalid_page, example_db) \<and>
   getPostByUsername example_db (users example_db ! 0) (Fin (3 / 2)) = (invalid_page, example_db) \<and>
   getFeed example_db NaN = (invalid_page, example_db) \<and>
   status (fst (getFeed example_db (Fin (3 / 2)))) = 400 \<and>
   status (fst (getFeed example_db (Fin 1))) = 200"
proof -
  have a: "\<not> (\<exists>n::int. 1 \<le> n \<and> Fin 0 = Fin (of_int n))" by auto
  have b: "\<not> (\<exists>n::int. 1 \<le> n \<and> Fin (3 / 2) = Fin (of_int n))"
  proof
    assume "\<exists>n::int. 1 \<le> n \<and> Fin (3 / 2) = Fin (of_int n)"
    then obtain n :: int where "Fin (3 / 2) = Fin (of_int n)" by blast
    then have "3 / 2 = (of_int n :: rat)" by (simp only: jsnum.inject)
    with three_halves_not_integer show False by blast
  qed
  have c: "\<not> (\<exists>n::int. 1 \<le> n \<and> NaN = Fin (of_int n))" by simp
  have ok: "status (fst (getFeed example_db (Fin 1))) = 200"
    by (simp add: getFeed_def Number_isInteger_def le_zero_def integer_value_def fetchPosts_def
        skip_limit_def itemsToFetch_def example_db_def sort_timestamp_desc_def touch_def
        populate_def select_owner_def format_post_def post_doc.truncate_def)
  show ?thesis
    using invalid_page_is_rejected_first [OF a, of example_db 10 "users example_db ! 0"]
      invalid_page_is_rejected_first [OF b, of example_db 10 "users example_db ! 0"]
      invalid_page_is_rejected_first [OF c, of example_db 10 "users example_db ! 0"]
      ok
    by simp
qed

section \<open>Pagination\<close>

lemma twelve_items:
  assumes "length xs = 12"
  shows "take 5 xs = [xs ! 0, xs ! 1, xs ! 2, xs ! 3, xs ! 4]"
    and "take 5 (drop 10 xs) = [xs ! 10, xs ! 11]"
    and "take 5 (drop 15 xs) = []"
proof -
  from assms obtain a0 a1 a2 a3 a4 a5 a6 a7 a8 a9 a10 a11
    where "xs = [a0, a1, a2, a3, a4, a5, a6, a7, a8, a9, a10, a11]"
    by (auto simp: eval_nat_numeral length_Suc_conv)
  then show "take 5 xs = [xs ! 0, xs ! 1, xs ! 2, xs ! 3, xs ! 4]"
    and "take 5 (drop 10 xs) = [xs ! 10, xs ! 11]"
    and "take 5 (drop 15 xs) = []"
    by simp_all
qed

lemma skip_limit_twelve:
  assumes "length xs = 12"
  shows "skip_limit ((1 - 1) * itemsToFetch) itemsToFetch xs =
           Inr [xs ! 0, xs ! 1, xs ! 2, xs ! 3, xs ! 4]"
    and "skip_limit ((3 - 1) * itemsToFetch) itemsToFetch xs = Inr [xs ! 10, xs ! 11]"
    and "skip_limit ((4 - 1) * itemsToFetch) itemsToFetch xs = Inr []"
  using twelve_items [OF assms] by (simp_all add: skip_limit_def itemsToFetch_def)

lemma fetchPosts_page:
  "fst (fetchPosts d p) = skip_limit ((p - 1) * itemsToFetch) itemsToFetch (feed_order d)"
  by (simp add: fetchPosts_def feed_order_def skip_limit_def Let_def take_map drop_map)

lemma paginated_reads:
  "fst (getCommentsForPost d i p) =
     skip_limit ((p - 1) * itemsToFetch) itemsToFetch (comments_of_post d i)"
  "fst (getPostLikes d i p) =
     skip_limit ((p - 1) * itemsToFetch) itemsToFetch (likes_of_post d i)"
  "fst (getPostsByUserId d u p) =
     skip_limit ((p - 1) * itemsToFetch) itemsToFetch (posts_of_user d u)"
  by (simp_all add: getCommentsForPost_def getPostLikes_def getPostsByUserId_def
      comments_of_post_def likes_of_post_def posts_of_user_def)

text \<open>
  Claim C6. With page size 5 and exactly twelve matching documents, each of
  \<open>getCommentsForPost\<close>, \<open>getPostLikes\<close>, \<open>getPostsByUserId\<close> and
  \<open>fetchPosts\<close> returns the first five for page 1, the eleventh and twelfth for
  page 3, and the empty list, not an error, for page 4. For any page \<open>p \<ge> 1\<close> and any
  number of documents, \<open>5 (p - 1)\<close> documents are skipped and at most five returned.
\<close>

theorem pages_of_five:
  "(let ms = comments_of_post d i in
      length ms = 12 \<longrightarrow>
        fst (getCommentsForPost d i 1) = Inr [ms ! 0, ms ! 1, ms ! 2, ms ! 3, ms ! 4] \<and>
        fst (getCommentsForPost d i 3) = Inr [ms ! 10, ms ! 11] \<and>
        fst (getCommentsForPost d i 4) = Inr []) \<and>
   (let ms = likes_of_post d i in
      length ms = 12 \<longrightarrow>
        fst (getPostLikes d i 1) = Inr [ms ! 0, ms ! 1, ms ! 2, ms ! 3, ms ! 4] \<and>
        fst (getPostLikes d i 3) = Inr [ms ! 10, ms ! 11] \<and>
        fst (getPostLikes d i 4) = Inr []) \<and>
   (let ms = posts_of_user d u in
      length ms = 12 \<longrightarrow>
        fst (getPostsByUserId d u 1) = Inr [ms ! 0, ms ! 1, ms ! 2, ms ! 3, ms ! 4] \<and>
        fst (getPostsByUserId d u 3) = Inr [ms ! 10, ms ! 11] \<and>
        fst (getPostsByUserId d u 4) = Inr []) \<and>
   (let ms = feed_order d in
      length ms = 12 \<longrightarrow>
        fst (fetchPosts d 1) = Inr [ms ! 0, ms ! 1, ms ! 2, ms ! 3, ms ! 4] \<and>
        fst (fetchPosts d 3) = Inr [ms ! 10, ms ! 11] \<and>
        fst (fetchPosts d 4) = Inr []) \<and>
   (1 \<le> p \<longrightarrow>
      fst (getCommentsForPost d i p) = Inr (take 5 (drop (5 * nat (p - 1)) (comments_of_post d i))) \<and>
      fst (getPostLikes d i p) = Inr (take 5 (drop (5 * nat (p - 1)) (likes_of_post d i))) \<and>
      fst (getPostsByUserId d u p) = Inr (take 5 (drop (5 * nat (p - 1)) (posts_of_user d u))) \<and>
      fst (fetchPosts d p) = Inr (take 5 (drop (5 * nat (p - 1)) (feed_order d))) \<and>
      at_most_five (fst (getCommentsForPost d i p)) \<and>
      at_most_five (fst (getPostLikes d i p)) \<and>
      at_most_five (fst (getPostsByUserId d u p)) \<and>
      at_most_five (fst (fetchPosts d p)))"
proof -
  have general: "1 \<le> p \<longrightarrow>
      fst (getCommentsForPost d i p) = Inr (take 5 (drop (5 * nat (p - 1)) (comments_of_post d i))) \<and>
      fst (getPostLikes d i p) = Inr (take 5 (drop (5 * nat (p - 1)) (likes_of_post d i))) \<and>
      fst (getPostsByUserId d u p) = Inr (take 5 (drop (5 * nat (p - 1)) (posts_of_user d u))) \<and>
      fst (fetchPosts d p) = Inr (take 5 (drop (5 * nat (p - 1)) (feed_order d))) \<and>
      at_most_five (fst (getCommentsForPost d i p)) \<and>
      at_most_five (fst (getPostLikes d i p)) \<and>
      at_most_five (fst (getPostsByUserId d u p)) \<and>
      at_most_five (fst (fetchPosts d p))"
    by (simp add: paginated_reads fetchPosts_page skip_limit_page at_most_five_def)
  have "length (feed_order d) = 12 \<Longrightarrow>
      fst (fetchPosts d 1) =
        Inr [feed_order d ! 0, feed_order d ! 1, feed_order d ! 2, feed_order d ! 3,
             feed_order d ! 4] \<and>
      fst (fetchPosts d 3) = Inr [feed_order d ! 10, feed_order d ! 11] \<and>
      fst (fetchPosts d 4) = Inr []"
    unfolding fetchPosts_page by (intro conjI) (erule skip_limit_twelve)+
  moreover have "length (comments_of_post d i) = 12 \<Longrightarrow>
      fst (getCommentsForPost d i 1) =
        Inr [comments_of_post d i ! 0, comments_of_post d i ! 1, comments_of_post d i ! 2,
             comments_of_post d i ! 3, comments_of_post d i ! 4] \<and>
      fst (getCommentsForPost d i 3) = Inr [comments_of_post d i ! 10, comments_of_post d i ! 11] \<and>
      fst (getCommentsForPost d i 4) = Inr []"
    unfolding paginated_reads by (intro conjI) (erule skip_limit_twelve)+
  moreover have "length (likes_of_post d i) = 12 \<Longrightarrow>
      fst (getPostLikes d i 1) =
        Inr [likes_of_post d i ! 0, likes_of_post d i ! 1, likes_of_post d i ! 2,
             likes_of_post d i ! 3, likes_of_post d i ! 4] \<and>
      fst (getPostLikes d i 3) = Inr [likes_of_post d i ! 10, likes_of_post d i ! 11] \<and>
      fst (getPostLikes d i 4) = Inr []"
    unfolding paginated_reads by (intro conjI) (erule skip_limit_twelve)+
  moreover have "length (posts_of_user d u) = 12 \<Longrightarrow>
      fst (getPostsByUserId d u 1) =
        Inr [posts_of_user d u ! 0, posts_of_user d u ! 1, posts_of_user d u ! 2,
             posts_of_user d u ! 3, posts_of_user d u ! 4] \<and>
      fst (getPostsByUserId d u 3) = Inr [posts_of_user d u ! 10, posts_of_user d u ! 11] \<and>
      fst (getPostsByUserId d u 4) = Inr []"
    unfolding paginated_reads by (intro conjI) (erule skip_limit_twelve)+
  ultimately show ?thesis
    using general unfolding Let_def by blast
qed

theorem pages_of_five_witness:
  "length (comments_of_post paging_db 0) = 12 \<and>
   length (likes_of_post paging_db 0) = 12 \<and>
   length (posts_of_user paging_db 1) = 12 \<and>
   length (feed_order paging_db) = 12 \<and>
   (1::int) \<le> 2 \<and>
   map_sum id (map comment_oid) (fst (getCommentsForPost paging_db 0 1)) =
     Inr [100, 101, 102, 103, 104] \<and>
   map_sum id (map comment_oid) (fst (getCommentsForPost paging_db 0 2)) =
     Inr [105, 106, 107, 108, 109] \<and>
   map_sum id (map comment_oid) (fst (getCommentsForPost paging_db 0 3)) = Inr [110, 111] \<and>
   map_sum id (map comment_oid) (fst (getCommentsForPost paging_db 0 4)) = Inr [] \<and>
   map_sum id (map like_oid) (fst (getPostLikes paging_db 0 3)) = Inr [210, 211] \<and>
   map_sum id (map post_oid) (fst (getPostsByUserId paging_db 1 3)) = Inr [10, 11] \<and>
   map_sum id (map post_oid) (fst (fetchPosts paging_db 1)) = Inr [11, 10, 9, 8, 7] \<and>
   map_sum id (map post_oid) (fst (fetchPosts paging_db 3)) = Inr [1, 0] \<and>
   map_sum id (map post_oid) (fst (fetchPosts paging_db 4)) = Inr []"
  using pages_of_five [of paging_db 0 1 2]
  by (simp add: paging_db_def comments_of_post_def likes_of_post_def posts_of_user_def
      feed_order_def sort_timestamp_desc_def populate_def select_owner_def
      post_doc.truncate_def Let_def)

section \<open>The feed\<close>

lemma sort_timestamp_desc_props:
  "mset (sort_timestamp_desc ps) = mset ps"
  "sorted_wrt (\<lambda>a b. post_timestamp b \<le> post_timestamp a) (sort_timestamp_desc ps)"
proof -
  show "mset (sort_timestamp_desc ps) = mset ps"
    by (simp add: sort_timestamp_desc_def)
  have "sorted (map (\<lambda>p. - post_timestamp p) (sort_timestamp_desc ps))"
    unfolding sort_timestamp_desc_def by (rule sorted_sort_key)
  then show "sorted_wrt (\<lambda>a b. post_timestamp b \<le> post_timestamp a) (sort_timestamp_desc ps)"
    by (simp add: sorted_map)
qed

lemma format_post_populate:
  assumes "owner_of d p = Some u"
  shows "format_post (populate (users d) (post_doc.truncate p)) = Inr (feed_item_of u p)"
  using assms
  by (simp add: owner_of_def format_post_def populate_def select_owner_def feed_item_of_def
      post_doc.truncate_def)

lemma format_posts_populate:
  assumes "\<forall>p\<in>set ps. owner_of d p \<noteq> None"
  shows "\<exists>items. format_posts (map (populate (users d)) (map post_doc.truncate ps)) = Inr items \<and>
           map Some items = map (\<lambda>p. map_option (\<lambda>u. feed_item_of u p) (owner_of d p)) ps"
  using assms
proof (induction ps)
  case Nil
  show ?case by simp
next
  case (Cons p ps)
  from Cons.prems obtain u where u: "owner_of d p = Some u" by auto
  from Cons obtain items where
    "format_posts (map (populate (users d)) (map post_doc.truncate ps)) = Inr items"
    "map Some items = map (\<lambda>p. map_option (\<lambda>u. feed_item_of u p) (owner_of d p)) ps"
    by auto
  with u format_post_populate [OF u] show ?case by simp
qed

lemma newest_page_subset: "set (newest_page d n) \<subseteq> set (posts d)"
proof -
  have "set (newest_page d n) \<subseteq> set (sort_timestamp_desc (posts d))"
    unfolding newest_page_def
    by (meson set_take_subset set_drop_subset subset_trans)
  then show ?thesis by (simp add: sort_timestamp_desc_def)
qed

lemma format_posts_ownerless:
  fixes ps :: "oid post list"
  assumes "\<not> list_all (\<lambda>p. owner_of d p \<noteq> None) ps"
  shows "format_posts (map (populate (users d)) (map post_doc.truncate ps)) = Inl TypeError"
  using assms
proof (induction ps)
  case Nil
  then show ?case by simp
next
  case (Cons p ps)
  show ?case
  proof (cases "owner_of d p")
    case None
    then have "format_post (populate (users d) (post_doc.truncate p)) = Inl TypeError"
      by (simp add: owner_of_def format_post_def populate_def post_doc.truncate_def)
    then show ?thesis by simp
  next
    case (Some u)
    with Cons.prems have "\<not> list_all (\<lambda>p. owner_of d p \<noteq> None) ps" by simp
    then have "format_posts (map (populate (users d)) (map post_doc.truncate ps)) = Inl TypeError"
      by (rule Cons.IH)
    with format_post_populate [OF Some] show ?thesis by simp
  qed
qed

lemma fetchPosts_newest_page:
  assumes "1 \<le> n"
  shows "fst (fetchPosts d n) =
           Inr (map (populate (users d)) (map post_doc.truncate (newest_page d n)))"
  using assms
  by (simp add: fetchPosts_def skip_limit_page newest_page_def Let_def take_map drop_map)

lemma getFeed_valid_page:
  assumes "1 \<le> n"
  shows "fst (getFeed d (Fin (of_int n))) =
           (case format_posts (map (populate (users d)) (map post_doc.truncate (newest_page d n))) of
              Inl e \<Rightarrow> \<lparr>status = 500, body = Text ''Server Error''\<rparr>
            | Inr formattedPosts \<Rightarrow> \<lparr>status = 200, body = JsonFeed formattedPosts\<rparr>)"
proof -
  obtain r d1 where r: "fetchPosts d n = (r, d1)" by (cases "fetchPosts d n")
  with fetchPosts_newest_page [OF assms, of d]
  have "r = Inr (map (populate (users d)) (map post_doc.truncate (newest_page d n)))" by simp
  with r positive_integer_is_valid_page [OF assms] show ?thesis
    by (simp add: getFeed_def split: sum.splits)
qed

text \<open>
  Claim C8, as stated, at page 1 of a state whose newest post has no stored owner: the
  page is not empty, and \<open>getFeed\<close> answers 500 instead of the page.
\<close>

theorem feed_with_ownerless_post_fails:
  "map post_oid (newest_page ownerless_db 1) = [50, 5, 4, 3, 2] \<and>
   map (owner_of ownerless_db) (newest_page ownerless_db 1) =
     [None, Some (users ownerless_db ! 0), Some (users ownerless_db ! 0),
      Some (users ownerless_db ! 0), Some (users ownerless_db ! 0)] \<and>
   fst (getFeed ownerless_db (Fin 1)) = \<lparr>status = 500, body = Text ''Server Error''\<rparr>"
  by (simp add: getFeed_def Number_isInteger_def le_zero_def integer_value_def fetchPosts_def
      skip_limit_def itemsToFetch_def ownerless_db_def sort_timestamp_desc_def
      newest_page_def owner_of_def touch_def populate_def select_owner_def format_post_def
      post_doc.truncate_def)

text \<open>
  Claim C8, amended. For a page \<open>n \<ge> 1\<close>, the posts listed by \<open>fetchPosts\<close> are the
  \<open>5 (n - 1) + 1\<close>-th to \<open>5 n\<close>-th of all posts in descending order of
  \<open>post_timestamp\<close>, each with its owner filled in. When the owner of every post of
  that page is a stored user, \<open>getFeed\<close> answers 200 with one item per such post, in
  that order, carrying the owner's username and base64 profile picture next to the
  post's own fields; when some post of that page has no stored owner, it answers 500.
\<close>

theorem feed_is_newest_first:
  assumes "1 \<le> n"
  shows "mset (sort_timestamp_desc (posts d)) = mset (posts d) \<and>
         sorted_wrt (\<lambda>a b. post_timestamp b \<le> post_timestamp a) (sort_timestamp_desc (posts d)) \<and>
         newest_page d n = take 5 (drop (5 * nat (n - 1)) (sort_timestamp_desc (posts d))) \<and>
         fst (fetchPosts d n) =
           Inr (map (populate (users d)) (map post_doc.truncate (newest_page d n))) \<and>
         (list_all (\<lambda>p. owner_of d p \<noteq> None) (newest_page d n) \<longrightarrow>
            (\<exists>items.
               fst (getFeed d (Fin (of_int n))) = \<lparr>status = 200, body = JsonFeed items\<rparr> \<and>
               map Some items =
                 map (\<lambda>p. map_option (\<lambda>u. feed_item_of u p) (owner_of d p)) (newest_page d n))) \<and>
         (\<not> list_all (\<lambda>p. owner_of d p \<noteq> None) (newest_page d n) \<longrightarrow>
            fst (getFeed d (Fin (of_int n))) = \<lparr>status = 500, body = Text ''Server Error''\<rparr>)"
proof -
  have served: "list_all (\<lambda>p. owner_of d p \<noteq> None) (newest_page d n) \<longrightarrow>
      (\<exists>items.
         fst (getFeed d (Fin (of_int n))) = \<lparr>status = 200, body = JsonFeed items\<rparr> \<and>
         map Some items =
           map (\<lambda>p. map_option (\<lambda>u. feed_item_of u p) (owner_of d p)) (newest_page d n))"
  proof
    assume "list_all (\<lambda>p. owner_of d p \<noteq> None) (newest_page d n)"
    then have "\<forall>p\<in>set (newest_page d n). owner_of d p \<noteq> None"
      by (simp add: list_all_iff)
    then obtain items where
      items: "format_posts (map (populate (users d)) (map post_doc.truncate (newest_page d n)))
                = Inr items"
        "map Some items =
           map (\<lambda>p. map_option (\<lambda>u. feed_item_of u p) (owner_of d p)) (newest_page d n)"
      using format_posts_populate by blast
    have "fst (getFeed d (Fin (of_int n))) = \<lparr>status = 200, body = JsonFeed items\<rparr>"
      by (subst getFeed_valid_page [OF assms]) (simp only: items(1) sum.case)
    with items(2) show "\<exists>items.
         fst (getFeed d (Fin (of_int n))) = \<lparr>status = 200, body = JsonFeed items\<rparr> \<and>
         map Some items =
           map (\<lambda>p. map_option (\<lambda>u. feed_item_of u p) (owner_of d p)) (newest_page d n)"
      by blast
  qed
  have refused: "\<not> list_all (\<lambda>p. owner_of d p \<noteq> None) (newest_page d n) \<longrightarrow>
      fst (getFeed d (Fin (of_int n))) = \<lparr>status = 500, body = Text ''Server Error''\<rparr>"
  proof
    assume "\<not> list_all (\<lambda>p. owner_of d p \<noteq> None) (newest_page d n)"
    then have "format_posts (map (populate (users d)) (map post_doc.truncate (newest_page d n)))
                 = Inl TypeError"
      by (rule format_posts_ownerless)
    then show "fst (getFeed d (Fin (of_int n))) = \<lparr>status = 500, body = Text ''Server Error''\<rparr>"
      by (subst getFeed_valid_page [OF assms]) (simp only: sum.case)
  qed
  have page: "newest_page d n = take 5 (drop (5 * nat (n - 1)) (sort_timestamp_desc (posts d)))"
    by (simp add: newest_page_def)
  from sort_timestamp_desc_props [of "posts d"] page fetchPosts_newest_page [OF assms, of d]
    served refused
  show ?thesis by (intro conjI)
qed

theorem feed_is_newest_first_witness:
  "(1::int) \<le> 2 \<and>
   map post_oid (newest_page ownerless_db 2) = [1, 0] \<and>
   list_all (\<lambda>p. owner_of ownerless_db p \<noteq> None) (newest_page ownerless_db 2) \<and>
   fst (getFeed ownerless_db (Fin 2)) =
     \<lparr>status = 200,
      body = JsonFeed
        (map (\<lambda>k. \<lparr>item_username = ''ann'', item_profilePic = Some ''TWFu'',
                   item_timestamp = int k, item_likeCount = 0, item_commentCount = 0,
                   item_content = ''post'', item_id = k\<rparr>)
           [1, 0])\<rparr> \<and>
   \<not> list_all (\<lambda>p. owner_of ownerless_db p \<noteq> None) (newest_page ownerless_db 1) \<and>
   fst (getFeed ownerless_db (Fin 1)) = \<lparr>status = 500, body = Text ''Server Error''\<rparr> \<and>
   map post_oid (newest_page feed_db 1) = [11, 12, 10] \<and>
   fst (getFeed feed_db (Fin 1)) =
     \<lparr>status = 200,
      body = JsonFeed
        [\<lparr>item_username = ''bob'', item_profilePic = None, item_timestamp = 300,
          item_likeCount = 2, item_commentCount = 1, item_content = ''third'', item_id = 11\<rparr>,
         \<lparr>item_username = ''ann'', item_profilePic = Some ''TWFu'', item_timestamp = 200,
          item_likeCount = 0, item_commentCount = 0, item_content = ''second'', item_id = 12\<rparr>,
         \<lparr>item_username = ''ann'', item_profilePic = Some ''TWFu'', item_timestamp = 100,
          item_likeCount = 0, item_commentCount = 0, item_content = ''first'', item_id = 10\<rparr>]\<rparr>"
proof -
  have one: "(1::int) \<le> 1" and two: "(1::int) \<le> 2" by simp_all
  have p2: "map post_oid (newest_page ownerless_db 2) = [1, 0]"
    and o2: "list_all (\<lambda>p. owner_of ownerless_db p \<noteq> None) (newest_page ownerless_db 2)"
    and o1: "\<not> list_all (\<lambda>p. owner_of ownerless_db p \<noteq> None) (newest_page ownerless_db 1)"
    by (simp_all add: ownerless_db_def newest_page_def sort_timestamp_desc_def owner_of_def)
  have f2: "fst (getFeed ownerless_db (Fin 2)) =
     \<lparr>status = 200,
      body = JsonFeed
        (map (\<lambda>k. \<lparr>item_username = ''ann'', item_profilePic = Some ''TWFu'',
                   item_timestamp = int k, item_likeCount = 0, item_commentCount = 0,
                   item_content = ''post'', item_id = k\<rparr>)
           [1, 0])\<rparr>"
    by (simp add: getFeed_def Number_isInteger_def le_zero_def integer_value_def fetchPosts_def
        skip_limit_def itemsToFetch_def ownerless_db_def sort_timestamp_desc_def
        touch_def populate_def select_owner_def format_post_def post_doc.truncate_def
        base64_digit_def base64_alphabet_def)
  have c: "map post_oid (newest_page feed_db 1) = [11, 12, 10]"
    by (simp add: feed_db_def newest_page_def sort_timestamp_desc_def)
  have e: "fst (getFeed feed_db (Fin 1)) =
     \<lparr>status = 200,
      body = JsonFeed
        [\<lparr>item_username = ''bob'', item_profilePic = None, item_timestamp = 300,
          item_likeCount = 2, item_commentCount = 1, item_content = ''third'', item_id = 11\<rparr>,
         \<lparr>item_username = ''ann'', item_profilePic = Some ''TWFu'', item_timestamp = 200,
          item_likeCount = 0, item_commentCount = 0, item_content = ''second'', item_id = 12\<rparr>,
         \<lparr>item_username = ''ann'', item_profilePic = Some ''TWFu'', item_timestamp = 100,
          item_likeCount = 0, item_commentCount = 0, item_content = ''first'', item_id = 10\<rparr>]\<rparr>"
    by (simp add: getFeed_def Number_isInteger_def le_zero_def integer_value_def fetchPosts_def
        skip_limit_def itemsToFetch_def feed_db_def sort_timestamp_desc_def touch_def
        populate_def select_owner_def format_post_def post_doc.truncate_def
        base64_digit_def base64_alphabet_def)
  from feed_is_newest_first [OF one, of ownerless_db] o1
  have f1: "fst (getFeed ownerless_db (Fin 1)) = \<lparr>status = 500, body = Text ''Server Error''\<rparr>"
    by simp
  from feed_is_newest_first [OF two, of ownerless_db] two p2 o2 f2 o1 f1 c e
  show ?thesis by simp
qed

end
